theory Spec2Isabelle
  imports Complex_Main "HOL-Library.Sublist"
begin

section \<open>Values of the host language\<close>

text \<open>
  The data-access layer (\<^verbatim>\<open>services/api.ts\<close>, the file of 436 lines) passes \<^verbatim>\<open>any\<close>-typed
  values around: records of the tables, arrays of them, and the \<^verbatim>\<open>error\<close> field of a
  remote answer. \<open>jsval\<close> is the part of the JavaScript value space those operations
  touch. A number is an integer here (identities, prices, costs and \<^verbatim>\<open>Date.now()\<close> are
  integers; fractions and NaN are outside the model). A string is a list of 8-bit
  characters. An object is the list of its own properties in insertion order, one entry
  per name.
\<close>

datatype jsval =
    JUndefined
  | JNull
  | JBool bool
  | JNum int
  | JStr string
  | JArr "jsval list"
  | JObj "(string \<times> jsval) list"

type_synonym obj = "(string \<times> jsval) list"

text \<open>What \<^verbatim>\<open>if (v)\<close>, \<^verbatim>\<open>!v\<close> and \<^verbatim>\<open>v || w\<close> test.\<close>

fun truthy :: "jsval \<Rightarrow> bool" where
  "truthy JUndefined = False"
| "truthy JNull = False"
| "truthy (JBool b) = b"
| "truthy (JNum n) = (n \<noteq> 0)"
| "truthy (JStr s) = (s \<noteq> [])"
| "truthy (JArr xs) = True"
| "truthy (JObj kvs) = True"

text \<open>Exceptions: what a \<^verbatim>\<open>throw\<close> or a rejected promise carries.\<close>

datatype js_error =
    TypeError
  | SyntaxError
  | QuotaExceededError
  | SecurityError
  | NetworkError
  | Error string

text \<open>
  Writing one property: an existing name keeps its place and takes the new value, a new
  name goes to the end. The same rule stores an item of the browser storage.
\<close>

fun assign :: "'k \<Rightarrow> 'v \<Rightarrow> ('k \<times> 'v) list \<Rightarrow> ('k \<times> 'v) list" where
  "assign k v [] = [(k, v)]"
| "assign k v (p # ps) = (if fst p = k then (k, v) # ps else p # assign k v ps)"

text \<open>
  \<^verbatim>\<open>{ ...target, ...source }\<close>: the properties of \<open>source\<close> are written onto \<open>target\<close>
  from left to right. A property list written after a spread in an object literal is
  applied the same way.
\<close>

definition spread :: "obj \<Rightarrow> obj \<Rightarrow> obj" where
  "spread target source = foldl (\<lambda>acc p. assign (fst p) (snd p) acc) target source"

text \<open>Reading a property of a record: \<^verbatim>\<open>undefined\<close> when the name is missing.\<close>

definition get :: "obj \<Rightarrow> string \<Rightarrow> jsval" where
  "get r k = (case map_of r k of None \<Rightarrow> JUndefined | Some v \<Rightarrow> v)"

section \<open>JSON text\<close>

text \<open>
  The fallback store keeps each collection as JSON text. \<^verbatim>\<open>JSON.stringify\<close> and
  \<^verbatim>\<open>JSON.parse\<close> are the platform's; they are modelled here on \<open>jsval\<close>, following
  ECMA-404 and the serialisation rules of ECMA-262 (an \<^verbatim>\<open>undefined\<close> array element is
  written as \<^verbatim>\<open>null\<close>, an \<^verbatim>\<open>undefined\<close> property is left out, a top-level
  \<^verbatim>\<open>undefined\<close> gives no text).
\<close>

abbreviation DQUOTE :: char where "DQUOTE \<equiv> CHR 0x22"
abbreviation BACKSLASH :: char where "BACKSLASH \<equiv> CHR 0x5C"

subsection \<open>Numbers\<close>

definition is_digit :: "char \<Rightarrow> bool" where
  "is_digit c \<longleftrightarrow> (48::nat) \<le> of_char c \<and> of_char c \<le> (57::nat)"

definition digit_char :: "nat \<Rightarrow> char" where
  "digit_char d = char_of (48 + d)"

definition digit_val :: "char \<Rightarrow> nat" where
  "digit_val c = of_char c - 48"

fun dec_nat :: "nat \<Rightarrow> string" where
  "dec_nat n = (if n < 10 then [digit_char n] else dec_nat (n div 10) @ [digit_char (n mod 10)])"

declare dec_nat.simps [simp del]

definition dec_int :: "int \<Rightarrow> string" where
  "dec_int i = (if i < 0 then CHR ''-'' # dec_nat (nat (- i)) else dec_nat (nat i))"

definition digits_val :: "string \<Rightarrow> nat" where
  "digits_val ds = foldl (\<lambda>a c. 10 * a + digit_val c) 0 ds"

definition frac_or_exp :: "string \<Rightarrow> bool" where
  "frac_or_exp r = (case r of [] \<Rightarrow> False | c # _ \<Rightarrow> c = CHR ''.'' \<or> c = CHR ''e'' \<or> c = CHR ''E'')"

definition parse_nat :: "string \<Rightarrow> (nat \<times> string) option" where
  "parse_nat s =
     (let ds = takeWhile is_digit s; r = dropWhile is_digit s
      in if ds = [] then None
         else if hd ds = CHR ''0'' \<and> 1 < length ds then None
         else if frac_or_exp r then None
         else Some (digits_val ds, r))"

definition parse_number :: "string \<Rightarrow> (int \<times> string) option" where
  "parse_number s =
     (case s of
        [] \<Rightarrow> None
      | c # r \<Rightarrow>
          if c = CHR ''-'' then map_option (\<lambda>(n, r'). (- int n, r')) (parse_nat r)
          else map_option (\<lambda>(n, r'). (int n, r')) (parse_nat s))"

subsection \<open>Strings\<close>

definition hex_char :: "nat \<Rightarrow> char" where
  "hex_char d = (if d < 10 then char_of (48 + d) else char_of (87 + d))"

definition hex_val :: "char \<Rightarrow> nat option" where
  "hex_val c =
     (let n = (of_char c :: nat)
      in if 48 \<le> n \<and> n \<le> 57 then Some (n - 48)
         else if 97 \<le> n \<and> n \<le> 102 then Some (n - 87)
         else if 65 \<le> n \<and> n \<le> 70 then Some (n - 55)
         else None)"

definition hex4 :: "char \<Rightarrow> char \<Rightarrow> char \<Rightarrow> char \<Rightarrow> char option" where
  "hex4 h1 h2 h3 h4 =
     (case (hex_val h1, hex_val h2, hex_val h3, hex_val h4) of
        (Some a, Some b, Some c, Some d) \<Rightarrow>
          (let n = ((a * 16 + b) * 16 + c) * 16 + d
           in if n < 256 then Some (char_of n) else None)
      | _ \<Rightarrow> None)"

definition esc_char :: "char \<Rightarrow> string" where
  "esc_char c =
     (let n = (of_char c :: nat)
      in if n = 34 then [BACKSLASH, DQUOTE]
         else if n = 92 then [BACKSLASH, BACKSLASH]
         else if n = 8 then [BACKSLASH, CHR ''b'']
         else if n = 12 then [BACKSLASH, CHR ''f'']
         else if n = 10 then [BACKSLASH, CHR ''n'']
         else if n = 13 then [BACKSLASH, CHR ''r'']
         else if n = 9 then [BACKSLASH, CHR ''t'']
         else if n < 32 then
           [BACKSLASH, CHR ''u'', CHR ''0'', CHR ''0'', hex_char (n div 16), hex_char (n mod 16)]
         else [c])"

fun quote_body :: "string \<Rightarrow> string" where
  "quote_body [] = [DQUOTE]"
| "quote_body (c # cs) = esc_char c @ quote_body cs"

definition quote :: "string \<Rightarrow> string" where
  "quote s = DQUOTE # quote_body s"

definition unescape :: "char \<Rightarrow> char option" where
  "unescape e =
     (if e = DQUOTE then Some DQUOTE
      else if e = BACKSLASH then Some BACKSLASH
      else if e = CHR ''/'' then Some CHR ''/''
      else if e = CHR ''b'' then Some (CHR 0x08)
      else if e = CHR ''f'' then Some (CHR 0x0C)
      else if e = CHR ''n'' then Some (CHR 0x0A)
      else if e = CHR ''r'' then Some (CHR 0x0D)
      else if e = CHR ''t'' then Some (CHR 0x09)
      else None)"

definition consing :: "char \<Rightarrow> (string \<times> string) option \<Rightarrow> (string \<times> string) option" where
  "consing c p = (case p of None \<Rightarrow> None | Some (s, r) \<Rightarrow> Some (c # s, r))"

fun parse_string :: "string \<Rightarrow> (string \<times> string) option" where
  "parse_string [] = None"
| "parse_string (c # cs) =
     (if c = DQUOTE then Some ([], cs)
      else if c = BACKSLASH then
        (case cs of
           [] \<Rightarrow> None
         | e # r \<Rightarrow>
             if e = CHR ''u'' then
               (case r of
                  h1 # h2 # h3 # h4 # r' \<Rightarrow>
                    (case hex4 h1 h2 h3 h4 of
                       None \<Rightarrow> None
                     | Some ch \<Rightarrow> consing ch (parse_string r'))
                | _ \<Rightarrow> None)
             else
               (case unescape e of
                  None \<Rightarrow> None
                | Some ch \<Rightarrow> consing ch (parse_string r)))
      else if (of_char c :: nat) < 32 then None
      else consing c (parse_string cs))"

subsection \<open>Values\<close>

fun join :: "string list \<Rightarrow> string" where
  "join [] = []"
| "join [s] = s"
| "join (s # t # ts) = s @ CHR '','' # join (t # ts)"

fun json_text :: "jsval \<Rightarrow> string"
  and json_texts :: "jsval list \<Rightarrow> string list"
  and json_member_texts :: "obj \<Rightarrow> string list" where
  "json_text JUndefined = ''null''"
| "json_text JNull = ''null''"
| "json_text (JBool b) = (if b then ''true'' else ''false'')"
| "json_text (JNum i) = dec_int i"
| "json_text (JStr s) = quote s"
| "json_text (JArr xs) = CHR ''['' # join (json_texts xs) @ '']''"
| "json_text (JObj kvs) = CHR ''{'' # join (json_member_texts kvs) @ ''}''"
| "json_texts [] = []"
| "json_texts (x # xs) = json_text x # json_texts xs"
| "json_member_texts [] = []"
| "json_member_texts (p # kvs) =
     (if snd p = JUndefined then json_member_texts kvs
      else (quote (fst p) @ CHR '':'' # json_text (snd p)) # json_member_texts kvs)"

definition JSON_stringify :: "jsval \<Rightarrow> string option" where
  "JSON_stringify v = (if v = JUndefined then None else Some (json_text v))"

text \<open>
  The parser is a recursive descent over the text. Its first argument bounds the nesting
  and the number of elements; the length of the text is always enough. A number with a
  fraction or an exponent denotes no value of \<open>jsval\<close> and is refused. A repeated name in
  an object keeps its first place and its last value.
\<close>

definition is_ws :: "char \<Rightarrow> bool" where
  "is_ws c \<longleftrightarrow> c = CHR '' '' \<or> c = CHR 0x09 \<or> c = CHR 0x0A \<or> c = CHR 0x0D"

definition skip_ws :: "string \<Rightarrow> string" where
  "skip_ws s = dropWhile is_ws s"

fun parse_value :: "nat \<Rightarrow> string \<Rightarrow> (jsval \<times> string) option"
  and parse_elements :: "nat \<Rightarrow> string \<Rightarrow> (jsval list \<times> string) option"
  and parse_members :: "nat \<Rightarrow> string \<Rightarrow> (obj \<times> string) option" where
  "parse_value 0 s = None"
| "parse_value (Suc n) s =
     (case s of
        [] \<Rightarrow> None
      | c # cs \<Rightarrow>
          if c = CHR ''n'' then (if prefix ''ull'' cs then Some (JNull, drop 3 cs) else None)
          else if c = CHR ''t'' then (if prefix ''rue'' cs then Some (JBool True, drop 3 cs) else None)
          else if c = CHR ''f'' then (if prefix ''alse'' cs then Some (JBool False, drop 4 cs) else None)
          else if c = DQUOTE then
            (case parse_string cs of None \<Rightarrow> None | Some (str, r) \<Rightarrow> Some (JStr str, r))
          else if c = CHR ''['' then
            (case skip_ws cs of
               [] \<Rightarrow> None
             | d # r \<Rightarrow>
                 if d = CHR '']'' then Some (JArr [], r)
                 else (case parse_elements n (d # r) of
                         None \<Rightarrow> None
                       | Some (vs, r') \<Rightarrow> Some (JArr vs, r')))
          else if c = CHR ''{'' then
            (case skip_ws cs of
               [] \<Rightarrow> None
             | d # r \<Rightarrow>
                 if d = CHR ''}'' then Some (JObj [], r)
                 else (case parse_members n (d # r) of
                         None \<Rightarrow> None
                       | Some (kvs, r') \<Rightarrow> Some (JObj (spread [] kvs), r')))
          else (case parse_number s of None \<Rightarrow> None | Some (i, r) \<Rightarrow> Some (JNum i, r)))"
| "parse_elements 0 s = None"
| "parse_elements (Suc n) s =
     (case parse_value n s of
        None \<Rightarrow> None
      | Some (v, r) \<Rightarrow>
          (case skip_ws r of
             [] \<Rightarrow> None
           | d # r' \<Rightarrow>
               if d = CHR '','' then
                 (case parse_elements n (skip_ws r') of
                    None \<Rightarrow> None
                  | Some (vs, r'') \<Rightarrow> Some (v # vs, r''))
               else if d = CHR '']'' then Some ([v], r')
               else None))"
| "parse_members 0 s = None"
| "parse_members (Suc n) s =
     (case s of
        [] \<Rightarrow> None
      | q # cs \<Rightarrow>
          if q \<noteq> DQUOTE then None
          else
            (case parse_string cs of
               None \<Rightarrow> None
             | Some (k, r) \<Rightarrow>
                 (case skip_ws r of
                    [] \<Rightarrow> None
                  | col # r1 \<Rightarrow>
                      if col \<noteq> CHR '':'' then None
                      else
                        (case parse_value n (skip_ws r1) of
                           None \<Rightarrow> None
                         | Some (v, r2) \<Rightarrow>
                             (case skip_ws r2 of
                                [] \<Rightarrow> None
                              | d # r3 \<Rightarrow>
                                  if d = CHR '','' then
                                    (case parse_members n (skip_ws r3) of
                                       None \<Rightarrow> None
                                     | Some (kvs, r4) \<Rightarrow> Some ((k, v) # kvs, r4))
                                  else if d = CHR ''}'' then Some ([(k, v)], r3)
                                  else None)))))"

definition JSON_parse :: "string \<Rightarrow> js_error + jsval" where
  "JSON_parse s =
     (case parse_value (length s) (skip_ws s) of
        None \<Rightarrow> Inl SyntaxError
      | Some (v, r) \<Rightarrow> if skip_ws r = [] then Inr v else Inl SyntaxError)"

text \<open>
  What a value becomes on its way through \<^verbatim>\<open>JSON.stringify\<close> and \<^verbatim>\<open>JSON.parse\<close>,
  when every object in it has one entry per name (\<open>well_formed\<close>); and the values that
  come back as they are (\<open>is_json\<close>).
\<close>

fun json_image :: "jsval \<Rightarrow> jsval"
  and json_image_list :: "jsval list \<Rightarrow> jsval list"
  and json_image_members :: "obj \<Rightarrow> obj" where
  "json_image JUndefined = JNull"
| "json_image JNull = JNull"
| "json_image (JBool b) = JBool b"
| "json_image (JNum i) = JNum i"
| "json_image (JStr s) = JStr s"
| "json_image (JArr xs) = JArr (json_image_list xs)"
| "json_image (JObj kvs) = JObj (json_image_members kvs)"
| "json_image_list [] = []"
| "json_image_list (x # xs) = json_image x # json_image_list xs"
| "json_image_members [] = []"
| "json_image_members (p # kvs) =
     (if snd p = JUndefined then json_image_members kvs else (fst p, json_image (snd p)) # json_image_members kvs)"

fun well_formed :: "jsval \<Rightarrow> bool"
  and well_formed_list :: "jsval list \<Rightarrow> bool"
  and well_formed_members :: "obj \<Rightarrow> bool" where
  "well_formed (JArr xs) = well_formed_list xs"
| "well_formed (JObj kvs) = (distinct (map fst kvs) \<and> well_formed_members kvs)"
| "well_formed v = True"
| "well_formed_list [] = True"
| "well_formed_list (x # xs) = (well_formed x \<and> well_formed_list xs)"
| "well_formed_members [] = True"
| "well_formed_members (p # kvs) = (well_formed (snd p) \<and> well_formed_members kvs)"

fun is_json :: "jsval \<Rightarrow> bool"
  and is_json_list :: "jsval list \<Rightarrow> bool"
  and is_json_members :: "obj \<Rightarrow> bool" where
  "is_json JUndefined = False"
| "is_json (JArr xs) = is_json_list xs"
| "is_json (JObj kvs) = (distinct (map fst kvs) \<and> is_json_members kvs)"
| "is_json v = True"
| "is_json_list [] = True"
| "is_json_list (x # xs) = (is_json x \<and> is_json_list xs)"
| "is_json_members [] = True"
| "is_json_members (p # kvs) = (is_json (snd p) \<and> is_json_members kvs)"

section \<open>The browser's storage\<close>

text \<open>
  \<^verbatim>\<open>localStorage\<close> maps names to strings. A write that would take the stored text beyond
  the quota throws, and a browser that denies access to the storage throws on every call;
  these are the failures the two \<^verbatim>\<open>try\<close> blocks of the helpers are there for.
\<close>

record localStorage =
  items :: "(string \<times> string) list"
  quota :: nat
  denied :: bool

definition usage :: "(string \<times> string) list \<Rightarrow> nat" where
  "usage kvs = sum_list (map (\<lambda>p. length (fst p) + length (snd p)) kvs)"

definition getItem :: "localStorage \<Rightarrow> string \<Rightarrow> js_error + string option" where
  "getItem ls key = (if denied ls then Inl SecurityError else Inr (map_of (items ls) key))"

definition setItem :: "localStorage \<Rightarrow> string \<Rightarrow> string \<Rightarrow> js_error + localStorage" where
  "setItem ls key val =
     (if denied ls then Inl SecurityError
      else if usage (assign key val (items ls)) \<le> quota ls
      then Inr (ls\<lparr>items := assign key val (items ls)\<rparr>)
      else Inl QuotaExceededError)"

subsection \<open>\<^verbatim>\<open>getMockData\<close> and \<^verbatim>\<open>setMockData\<close>, lines 29-45\<close>

text \<open>
  The \<^verbatim>\<open>try\<close> block of \<^verbatim>\<open>getMockData\<close>: it throws (\<open>Inl\<close>), returns the parsed value from
  inside (\<open>Some\<close>), or falls through (\<open>None\<close>) when nothing or the empty string is stored.
\<close>

definition getMockData_try :: "localStorage \<Rightarrow> string \<Rightarrow> js_error + jsval option" where
  "getMockData_try ls key =
     (case getItem ls key of
        Inl e \<Rightarrow> Inl e
      | Inr None \<Rightarrow> Inr None
      | Inr (Some stored) \<Rightarrow>
          if stored \<noteq> [] then
            (case JSON_parse stored of Inl e \<Rightarrow> Inl e | Inr v \<Rightarrow> Inr (Some v))
          else Inr None)"

text \<open>The \<^verbatim>\<open>catch\<close> logs and goes on to \<^verbatim>\<open>return defaultData\<close>.\<close>

definition getMockData :: "localStorage \<Rightarrow> string \<Rightarrow> jsval \<Rightarrow> jsval" where
  "getMockData ls key defaultData =
     (case getMockData_try ls key of
        Inl e \<Rightarrow> defaultData
      | Inr None \<Rightarrow> defaultData
      | Inr (Some v) \<Rightarrow> v)"

text \<open>
  \<^verbatim>\<open>setItem\<close> stores the string form of its argument: the text, or \<^verbatim>\<open>"undefined"\<close> when
  \<^verbatim>\<open>JSON.stringify\<close> gave none. A write that throws is logged and dropped.
\<close>

definition setMockData_try :: "localStorage \<Rightarrow> string \<Rightarrow> jsval \<Rightarrow> js_error + localStorage" where
  "setMockData_try ls key d =
     setItem ls key (case JSON_stringify d of None \<Rightarrow> ''undefined'' | Some s \<Rightarrow> s)"

definition setMockData :: "localStorage \<Rightarrow> string \<Rightarrow> jsval \<Rightarrow> localStorage" where
  "setMockData ls key d = (case setMockData_try ls key d of Inl e \<Rightarrow> ls | Inr ls' \<Rightarrow> ls')"

section \<open>The remote client's flag (\<^verbatim>\<open>services/supabaseClient.ts\<close>)\<close>

record env =
  VITE_SUPABASE_URL :: "string option"
  VITE_SUPABASE_ANON_KEY :: "string option"

text \<open>\<^verbatim>\<open>env.X || ''\<close>: an absent variable and an empty one both give the empty string.\<close>

definition supabaseUrl :: "env \<Rightarrow> string" where
  "supabaseUrl e = (case VITE_SUPABASE_URL e of None \<Rightarrow> [] | Some s \<Rightarrow> s)"

definition supabaseKey :: "env \<Rightarrow> string" where
  "supabaseKey e = (case VITE_SUPABASE_ANON_KEY e of None \<Rightarrow> [] | Some s \<Rightarrow> s)"

definition isValidConfig :: "env \<Rightarrow> bool" where
  "isValidConfig e \<longleftrightarrow>
     supabaseUrl e \<noteq> [] \<and> supabaseKey e \<noteq> [] \<and> prefix ''http'' (supabaseUrl e)"

definition isSupabaseEnabled :: "env \<Rightarrow> bool" where
  "isSupabaseEnabled e = isValidConfig e"

section \<open>The resilience wrapper\<close>

text \<open>
  A remote operation answers with \<^verbatim>\<open>{ data, error }\<close>; \<open>None\<close> is \<^verbatim>\<open>null\<close> data.
  An asynchronous call is a function of the state of the world \<open>'w\<close> that returns the
  new state and either the value the promise resolves to or what it rejects with.
\<close>

record 'a response =
  data :: "'a option"
  error :: jsval

type_synonym ('a, 'w) async = "'w \<Rightarrow> (js_error + 'a) \<times> 'w"

text \<open>
  \<^verbatim>\<open>trySupabase\<close>, lines 56-72. The module constant \<^verbatim>\<open>isSupabaseEnabled\<close> is its first
  argument. The two \<^verbatim>\<open>console.warn\<close> calls are not modelled. An operation that throws or
  rejects keeps whatever it did to the world before; the fallback runs outside the
  \<^verbatim>\<open>try\<close>, so what it throws reaches the caller.
\<close>

definition trySupabase ::
  "bool \<Rightarrow> ('a response, 'w) async \<Rightarrow> ('a, 'w) async \<Rightarrow> ('a, 'w) async" where
  "trySupabase enabled operation fallback w =
     (if enabled then
        (case operation w of
           (Inr r, w') \<Rightarrow>
             (case data r of
                Some d \<Rightarrow> if \<not> truthy (error r) then (Inr d, w') else fallback w'
              | None \<Rightarrow> fallback w')
         | (Inl err, w') \<Rightarrow> fallback w')
      else fallback w)"

section \<open>The remote client\<close>

text \<open>
  The hosted database is not part of the repository: the client \<^verbatim>\<open>supabase\<close> is a
  parameter of the model. A query built with \<^verbatim>\<open>from(table)\<close> and \<^verbatim>\<open>select\<close>, \<^verbatim>\<open>insert\<close>,
  \<^verbatim>\<open>update\<close>, \<^verbatim>\<open>delete\<close>, \<^verbatim>\<open>eq\<close>, \<^verbatim>\<open>order\<close> is awaited once; it throws, or answers with
  rows or \<^verbatim>\<open>null\<close> and an error field, and may change the remote state \<open>'r\<close> either way.
\<close>

datatype sb_query =
    Select string string "(string \<times> jsval) option" "string option"
  | Insert string "jsval list" bool
  | Update string obj "string \<times> jsval"
  | Delete string "string \<times> jsval"

record sb_answer =
  rows :: "jsval list option"
  failure :: jsval

type_synonym 'r supabase = "sb_query \<Rightarrow> 'r \<Rightarrow> (js_error + sb_answer) \<times> 'r"

text \<open>
  \<^verbatim>\<open>const { data, error } = await query; return { data: ..., error: ... }\<close>: a query that
  throws makes the operation throw.
\<close>

definition awaiting ::
  "(js_error + sb_answer) \<times> 'r \<Rightarrow> (sb_answer \<Rightarrow> jsval response) \<Rightarrow> (js_error + jsval response) \<times> 'r" where
  "awaiting q k = (case q of (Inl e, r') \<Rightarrow> (Inl e, r') | (Inr a, r') \<Rightarrow> (Inr (k a), r'))"

section \<open>The state of the world\<close>

text \<open>
  The fallback side is the browser storage and the module's array \<^verbatim>\<open>MOCK_DOCTORS\<close>
  (lines 48-51), which \<^verbatim>\<open>getMockData('doctors', MOCK_DOCTORS)\<close> hands out itself when
  nothing is stored, so that \<^verbatim>\<open>push\<close> and an indexed assignment on the result change it.
\<close>

record local_state =
  storage :: localStorage
  MOCK_DOCTORS :: "jsval list"

record 'r world =
  remote :: 'r
  local :: local_state

definition on_remote :: "('r \<Rightarrow> (js_error + 'a) \<times> 'r) \<Rightarrow> ('a, 'r world) async" where
  "on_remote f w = (case f (remote w) of (res, r') \<Rightarrow> (res, w\<lparr>remote := r'\<rparr>))"

definition on_local :: "(local_state \<Rightarrow> (js_error + 'a) \<times> local_state) \<Rightarrow> ('a, 'r world) async" where
  "on_local f w = (case f (local w) of (res, l') \<Rightarrow> (res, w\<lparr>local := l'\<rparr>))"

definition initial_MOCK_DOCTORS :: "jsval list" where
  "initial_MOCK_DOCTORS =
     [JObj [(''id'', JNum 1), (''name'', JStr ''dr. Andi Wijaya, Sp.PD''),
            (''specialty'', JStr ''Penyakit Dalam''),
            (''image'', JStr ''https://picsum.photos/seed/doc1/200/200''),
            (''schedule'', JStr ''Senin - Kamis, 08.00 - 12.00''), (''available'', JBool True)],
      JObj [(''id'', JNum 2), (''name'', JStr ''dr. Sarah Utami, Sp.A''),
            (''specialty'', JStr ''Anak''),
            (''image'', JStr ''https://picsum.photos/seed/doc2/200/200''),
            (''schedule'', JStr ''Senin - Jumat, 09.00 - 14.00''), (''available'', JBool True)]]"

text \<open>Whether \<^verbatim>\<open>getMockData\<close> handed out the default itself rather than a parsed copy.\<close>

definition gave_default :: "localStorage \<Rightarrow> string \<Rightarrow> bool" where
  "gave_default ls key = (case getMockData_try ls key of Inr (Some v) \<Rightarrow> False | _ \<Rightarrow> True)"

section \<open>What the closures do to values\<close>

text \<open>
  Reading a property of a value. The names read in this file (\<^verbatim>\<open>id\<close>, \<^verbatim>\<open>nik\<close>) are
  supplied by no prototype, so a value that is not an object gives \<^verbatim>\<open>undefined\<close>; on
  \<^verbatim>\<open>null\<close> and \<^verbatim>\<open>undefined\<close> the read throws.
\<close>

definition field :: "jsval \<Rightarrow> string \<Rightarrow> jsval" where
  "field v k = (case v of JObj kvs \<Rightarrow> get kvs k | _ \<Rightarrow> JUndefined)"

definition member :: "jsval \<Rightarrow> string \<Rightarrow> js_error + jsval" where
  "member v k =
     (case v of
        JUndefined \<Rightarrow> Inl TypeError
      | JNull \<Rightarrow> Inl TypeError
      | _ \<Rightarrow> Inr (field v k))"

text \<open>\<^verbatim>\<open>x => x.k === v\<close> and \<^verbatim>\<open>x => x.k !== v\<close>, for a string or a number \<open>v\<close>.\<close>

definition field_is :: "string \<Rightarrow> jsval \<Rightarrow> jsval \<Rightarrow> js_error + bool" where
  "field_is k v x = (case member x k of Inl e \<Rightarrow> Inl e | Inr u \<Rightarrow> Inr (u = v))"

definition field_is_not :: "string \<Rightarrow> jsval \<Rightarrow> jsval \<Rightarrow> js_error + bool" where
  "field_is_not k v x = (case member x k of Inl e \<Rightarrow> Inl e | Inr u \<Rightarrow> Inr (u \<noteq> v))"

text \<open>
  The own enumerable properties a spread copies: those of an object, the elements of an
  array and the characters of a string under their indices, nothing otherwise.
\<close>

definition own_props :: "jsval \<Rightarrow> obj" where
  "own_props v =
     (case v of
        JObj kvs \<Rightarrow> kvs
      | JArr xs \<Rightarrow> zip (map dec_nat [0..<length xs]) xs
      | JStr s \<Rightarrow> zip (map dec_nat [0..<length s]) (map (\<lambda>c. JStr [c]) s)
      | _ \<Rightarrow> [])"

text \<open>
  The array methods. Calling one on a value that is not an array throws (the stored text
  may parse to anything); a callback that throws ends the call.
\<close>

definition as_array :: "jsval \<Rightarrow> js_error + jsval list" where
  "as_array v = (case v of JArr xs \<Rightarrow> Inr xs | _ \<Rightarrow> Inl TypeError)"

fun some_js :: "(jsval \<Rightarrow> js_error + bool) \<Rightarrow> jsval list \<Rightarrow> js_error + bool" where
  "some_js p [] = Inr False"
| "some_js p (x # xs) =
     (case p x of Inl e \<Rightarrow> Inl e | Inr b \<Rightarrow> if b then Inr True else some_js p xs)"

fun filter_js :: "(jsval \<Rightarrow> js_error + bool) \<Rightarrow> jsval list \<Rightarrow> js_error + jsval list" where
  "filter_js p [] = Inr []"
| "filter_js p (x # xs) =
     (case p x of
        Inl e \<Rightarrow> Inl e
      | Inr b \<Rightarrow>
          (case filter_js p xs of
             Inl e \<Rightarrow> Inl e
           | Inr ys \<Rightarrow> Inr (if b then x # ys else ys)))"

text \<open>\<open>None\<close> is the index \<^verbatim>\<open>-1\<close>.\<close>

fun findIndex_js :: "(jsval \<Rightarrow> js_error + bool) \<Rightarrow> jsval list \<Rightarrow> js_error + nat option" where
  "findIndex_js p [] = Inr None"
| "findIndex_js p (x # xs) =
     (case p x of
        Inl e \<Rightarrow> Inl e
      | Inr b \<Rightarrow>
          if b then Inr (Some 0)
          else (case findIndex_js p xs of
                  Inl e \<Rightarrow> Inl e
                | Inr None \<Rightarrow> Inr None
                | Inr (Some i) \<Rightarrow> Inr (Some (Suc i))))"

definition array_some :: "(jsval \<Rightarrow> js_error + bool) \<Rightarrow> jsval \<Rightarrow> js_error + bool" where
  "array_some p v = (case as_array v of Inl e \<Rightarrow> Inl e | Inr xs \<Rightarrow> some_js p xs)"

definition array_filter :: "(jsval \<Rightarrow> js_error + bool) \<Rightarrow> jsval \<Rightarrow> js_error + jsval list" where
  "array_filter p v = (case as_array v of Inl e \<Rightarrow> Inl e | Inr xs \<Rightarrow> filter_js p xs)"

text \<open>The array comes back with the index, for the assignment that follows.\<close>

definition array_findIndex ::
  "(jsval \<Rightarrow> js_error + bool) \<Rightarrow> jsval \<Rightarrow> js_error + jsval list \<times> nat option" where
  "array_findIndex p v =
     (case as_array v of
        Inl e \<Rightarrow> Inl e
      | Inr xs \<Rightarrow> (case findIndex_js p xs of Inl e \<Rightarrow> Inl e | Inr i \<Rightarrow> Inr (xs, i)))"

definition array_push :: "jsval \<Rightarrow> jsval \<Rightarrow> js_error + jsval list" where
  "array_push v x = (case as_array v of Inl e \<Rightarrow> Inl e | Inr xs \<Rightarrow> Inr (xs @ [x]))"

text \<open>\<^verbatim>\<open>xs[i] = { ...xs[i], ...d }\<close> at an index \<^verbatim>\<open>findIndex\<close> returned.\<close>

definition merge_at :: "jsval list \<Rightarrow> nat \<Rightarrow> obj \<Rightarrow> jsval list" where
  "merge_at xs i d = xs[i := JObj (spread (spread [] (own_props (xs ! i))) d)]"

section \<open>The operations of \<^verbatim>\<open>api\<close>\<close>

text \<open>
  Each operation is \<^verbatim>\<open>trySupabase(operation, fallback)\<close>: the operation talks to the
  remote client only, the fallback to the storage (and \<^verbatim>\<open>MOCK_DOCTORS\<close>) only. Arguments
  typed \<^verbatim>\<open>any\<close> that the callers fill with the record of a form are records here. The
  results are values: \<^verbatim>\<open>true\<close> is \<open>JBool True\<close>.
\<close>

type_synonym 'a fallback = "local_state \<Rightarrow> (js_error + 'a) \<times> local_state"

subsection \<open>Public operations, lines 77-160\<close>

definition checkNik_fallback :: "string \<Rightarrow> jsval fallback" where
  "checkNik_fallback nik st =
     (let regs = getMockData (storage st) ''registrations'' (JArr [])
      in case array_some (field_is ''nik'' (JStr nik)) regs of
           Inl e \<Rightarrow> (Inl e, st)
         | Inr b \<Rightarrow> (Inr (JBool b), st))"

definition checkNik_operation ::
  "'r supabase \<Rightarrow> string \<Rightarrow> 'r \<Rightarrow> (js_error + jsval response) \<times> 'r" where
  "checkNik_operation sb nik r =
     awaiting (sb (Select ''registrations'' ''id'' (Some (''nik'', JStr nik)) None) r)
       (\<lambda>a. \<lparr>data = (case rows a of None \<Rightarrow> None | Some xs \<Rightarrow> Some (JBool (0 < length xs))),
              error = failure a\<rparr>)"

definition checkNik ::
  "bool \<Rightarrow> 'r supabase \<Rightarrow> string \<Rightarrow> (jsval, 'r world) async" where
  "checkNik en sb nik =
     trySupabase en (on_remote (checkNik_operation sb nik)) (on_local (checkNik_fallback nik))"

definition getDoctors_fallback :: "jsval fallback" where
  "getDoctors_fallback st = (Inr (getMockData (storage st) ''doctors'' (JArr (MOCK_DOCTORS st))), st)"

definition getDoctors_operation ::
  "'r supabase \<Rightarrow> 'r \<Rightarrow> (js_error + jsval response) \<times> 'r" where
  "getDoctors_operation sb r =
     awaiting (sb (Select ''doctors'' ''*'' None None) r)
       (\<lambda>a. \<lparr>data = map_option JArr (rows a), error = failure a\<rparr>)"

definition getDoctors ::
  "bool \<Rightarrow> 'r supabase \<Rightarrow> (jsval, 'r world) async" where
  "getDoctors en sb =
     trySupabase en (on_remote (getDoctors_operation sb)) (on_local getDoctors_fallback)"

definition loginPatient_fallback :: "string \<Rightarrow> jsval fallback" where
  "loginPatient_fallback nik st =
     (let regs = getMockData (storage st) ''registrations'' (JArr [])
      in case array_filter (field_is ''nik'' (JStr nik)) regs of
           Inl e \<Rightarrow> (Inl e, st)
         | Inr patientRegs \<Rightarrow>
             if 0 < length patientRegs
             then (Inr (JObj [(''found'', JBool True), (''data'', JArr patientRegs)]), st)
             else if 10 \<le> length nik
             then (Inr (JObj [(''found'', JBool True), (''data'', JArr [])]), st)
             else (Inl (Error ''NIK tidak ditemukan''), st))"

definition loginPatient_operation ::
  "'r supabase \<Rightarrow> string \<Rightarrow> 'r \<Rightarrow> (js_error + jsval response) \<times> 'r" where
  "loginPatient_operation sb nik r =
     awaiting (sb (Select ''registrations'' ''*'' (Some (''nik'', JStr nik)) None) r)
       (\<lambda>a. if truthy (failure a) then \<lparr>data = None, error = failure a\<rparr>
             else \<lparr>data = Some (JObj [(''found'', JBool True),
                            (''data'', JArr (case rows a of None \<Rightarrow> [] | Some xs \<Rightarrow> xs))]),
                   error = JNull\<rparr>)"

definition loginPatient ::
  "bool \<Rightarrow> 'r supabase \<Rightarrow> string \<Rightarrow> (jsval, 'r world) async" where
  "loginPatient en sb nik =
     trySupabase en (on_remote (loginPatient_operation sb nik)) (on_local (loginPatient_fallback nik))"

text \<open>
  \<^verbatim>\<open>registerPatient\<close>, lines 118-145. \<open>rnd\<close> is what \<^verbatim>\<open>Math.random()\<close> returned, a number
  from 0 up to but not including 1, taken as a real: the rounding of the two floating-point
  operations is not modelled. \<open>stamp\<close> is \<^verbatim>\<open>new Date().toISOString()\<close> and \<open>now\<close> is
  \<^verbatim>\<open>Date.now()\<close>.
\<close>

definition randomNum :: "real \<Rightarrow> int" where
  "randomNum rnd = \<lfloor>1000 + rnd * 9000\<rfloor>"

definition bookingCode :: "real \<Rightarrow> string" where
  "bookingCode rnd = ''REG-'' @ dec_int (randomNum rnd)"

definition newData :: "obj \<Rightarrow> real \<Rightarrow> string \<Rightarrow> obj" where
  "newData d rnd stamp =
     spread (spread [] d)
       [(''bookingCode'', JStr (bookingCode rnd)),
        (''booking_code'', JStr (bookingCode rnd)),
        (''payment_status'', JStr (if get d ''payment'' = JStr ''bpjs'' then ''Paid'' else ''Unpaid'')),
        (''payment_detail'',
           if get d ''payment'' = JStr ''bpjs'' then JStr ''BPJS Kesehatan''
           else if truthy (get d ''payment_detail'') then get d ''payment_detail''
           else JStr ''Tunai''),
        (''cost'', JNum 0),
        (''status'', JStr ''Pending''),
        (''created_at'', JStr stamp)]"

definition registerPatient_fallback :: "obj \<Rightarrow> int \<Rightarrow> jsval fallback" where
  "registerPatient_fallback nd now st =
     (let regs = getMockData (storage st) ''registrations'' (JArr []);
          savedData = spread [(''id'', JNum now)] nd
      in case array_push regs (JObj savedData) of
           Inl e \<Rightarrow> (Inl e, st)
         | Inr regs' \<Rightarrow>
             (Inr (JObj [(''message'', JStr ''success''), (''data'', JObj savedData)]),
              st\<lparr>storage := setMockData (storage st) ''registrations'' (JArr regs')\<rparr>))"

definition registerPatient_operation ::
  "'r supabase \<Rightarrow> obj \<Rightarrow> 'r \<Rightarrow> (js_error + jsval response) \<times> 'r" where
  "registerPatient_operation sb nd r =
     awaiting (sb (Insert ''registrations'' [JObj nd] True) r)
       (\<lambda>a. \<lparr>data = Some (JObj [(''message'', JStr ''success''),
                 (''data'', JObj (spread (spread [] nd)
                    (case rows a of
                       None \<Rightarrow> []
                     | Some [] \<Rightarrow> []
                     | Some (row # _) \<Rightarrow> own_props row)))]),
              error = failure a\<rparr>)"

definition registerPatient ::
  "bool \<Rightarrow> 'r supabase \<Rightarrow> obj \<Rightarrow> real \<Rightarrow> string \<Rightarrow> int \<Rightarrow> (jsval, 'r world) async" where
  "registerPatient en sb d rnd stamp now =
     (let nd = newData d rnd stamp
      in trySupabase en (on_remote (registerPatient_operation sb nd)) (on_local (registerPatient_fallback nd now)))"

text \<open>
  \<^verbatim>\<open>created_at: new Date()\<close> is a date object that the write turns into its ISO string
  \<open>stamp\<close>; the array is not used otherwise.
\<close>

definition sendMessage_fallback :: "obj \<Rightarrow> int \<Rightarrow> string \<Rightarrow> jsval fallback" where
  "sendMessage_fallback d now stamp st =
     (let msgs = getMockData (storage st) ''messages'' (JArr [])
      in case array_push msgs
             (JObj (spread (spread [(''id'', JNum now)] d)
                [(''is_read'', JBool False), (''created_at'', JStr stamp)])) of
           Inl e \<Rightarrow> (Inl e, st)
         | Inr msgs' \<Rightarrow>
             (Inr (JObj [(''message'', JStr ''success'')]),
              st\<lparr>storage := setMockData (storage st) ''messages'' (JArr msgs')\<rparr>))"

definition sendMessage_operation ::
  "'r supabase \<Rightarrow> obj \<Rightarrow> 'r \<Rightarrow> (js_error + jsval response) \<times> 'r" where
  "sendMessage_operation sb d r =
     awaiting
       (sb (Insert ''messages'' [JObj (spread (spread [] d) [(''is_read'', JBool False)])] False) r)
       (\<lambda>a. \<lparr>data = Some (JObj [(''message'', JStr ''success'')]), error = failure a\<rparr>)"

definition sendMessage ::
  "bool \<Rightarrow> 'r supabase \<Rightarrow> obj \<Rightarrow> int \<Rightarrow> string \<Rightarrow> (jsval, 'r world) async" where
  "sendMessage en sb d now stamp =
     trySupabase en (on_remote (sendMessage_operation sb d)) (on_local (sendMessage_fallback d now stamp))"

subsection \<open>Reading a collection\<close>

text \<open>
  \<^verbatim>\<open>getRegistrations\<close>, \<^verbatim>\<open>getMessages\<close>, \<^verbatim>\<open>getUsers\<close>, \<^verbatim>\<open>getBPJS\<close>, \<^verbatim>\<open>getFacilities\<close>,
  \<^verbatim>\<open>getRooms\<close> and \<^verbatim>\<open>getBanks\<close>.
\<close>

definition getRegistrations_operation ::
  "'r supabase \<Rightarrow> 'r \<Rightarrow> (js_error + jsval response) \<times> 'r" where
  "getRegistrations_operation sb r =
     awaiting (sb (Select ''registrations'' ''*'' None (Some ''created_at'')) r)
       (\<lambda>a. \<lparr>data = map_option JArr (rows a), error = failure a\<rparr>)"

definition getRegistrations_fallback :: "jsval fallback" where
  "getRegistrations_fallback st = (Inr (getMockData (storage st) ''registrations'' (JArr [])), st)"

definition getRegistrations ::
  "bool \<Rightarrow> 'r supabase \<Rightarrow> (jsval, 'r world) async" where
  "getRegistrations en sb =
     trySupabase en (on_remote (getRegistrations_operation sb)) (on_local getRegistrations_fallback)"

definition getMessages_operation ::
  "'r supabase \<Rightarrow> 'r \<Rightarrow> (js_error + jsval response) \<times> 'r" where
  "getMessages_operation sb r =
     awaiting (sb (Select ''messages'' ''*'' None (Some ''created_at'')) r)
       (\<lambda>a. \<lparr>data = map_option JArr (rows a), error = failure a\<rparr>)"

definition getMessages_fallback :: "jsval fallback" where
  "getMessages_fallback st = (Inr (getMockData (storage st) ''messages'' (JArr [])), st)"

definition getMessages ::
  "bool \<Rightarrow> 'r supabase \<Rightarrow> (jsval, 'r world) async" where
  "getMessages en sb =
     trySupabase en (on_remote (getMessages_operation sb)) (on_local getMessages_fallback)"

definition getUsers_operation ::
  "'r supabase \<Rightarrow> 'r \<Rightarrow> (js_error + jsval response) \<times> 'r" where
  "getUsers_operation sb r =
     awaiting (sb (Select ''users'' ''*'' None None) r)
       (\<lambda>a. \<lparr>data = map_option JArr (rows a), error = failure a\<rparr>)"

definition getUsers_fallback :: "jsval fallback" where
  "getUsers_fallback st = (Inr (getMockData (storage st) ''users'' (JArr [])), st)"

definition getUsers :: "bool \<Rightarrow> 'r supabase \<Rightarrow> (jsval, 'r world) async" where
  "getUsers en sb =
     trySupabase en (on_remote (getUsers_operation sb)) (on_local getUsers_fallback)"

definition getBPJS_operation ::
  "'r supabase \<Rightarrow> 'r \<Rightarrow> (js_error + jsval response) \<times> 'r" where
  "getBPJS_operation sb r =
     awaiting (sb (Select ''bpjs_data'' ''*'' None None) r)
       (\<lambda>a. \<lparr>data = map_option JArr (rows a), error = failure a\<rparr>)"

definition getBPJS_fallback :: "jsval fallback" where
  "getBPJS_fallback st = (Inr (getMockData (storage st) ''bpjs_data'' (JArr [])), st)"

definition getBPJS :: "bool \<Rightarrow> 'r supabase \<Rightarrow> (jsval, 'r world) async" where
  "getBPJS en sb =
     trySupabase en (on_remote (getBPJS_operation sb)) (on_local getBPJS_fallback)"

definition getFacilities_operation ::
  "'r supabase \<Rightarrow> 'r \<Rightarrow> (js_error + jsval response) \<times> 'r" where
  "getFacilities_operation sb r =
     awaiting (sb (Select ''facilities'' ''*'' None None) r)
       (\<lambda>a. \<lparr>data = map_option JArr (rows a), error = failure a\<rparr>)"

definition getFacilities_fallback :: "jsval fallback" where
  "getFacilities_fallback st = (Inr (getMockData (storage st) ''facilities'' (JArr [])), st)"

definition getFacilities ::
  "bool \<Rightarrow> 'r supabase \<Rightarrow> (jsval, 'r world) async" where
  "getFacilities en sb =
     trySupabase en (on_remote (getFacilities_operation sb)) (on_local getFacilities_fallback)"

definition getRooms_operation ::
  "'r supabase \<Rightarrow> 'r \<Rightarrow> (js_error + jsval response) \<times> 'r" where
  "getRooms_operation sb r =
     awaiting (sb (Select ''rooms'' ''*'' None None) r)
       (\<lambda>a. \<lparr>data = map_option JArr (rows a), error = failure a\<rparr>)"

definition getRooms_fallback :: "jsval fallback" where
  "getRooms_fallback st = (Inr (getMockData (storage st) ''rooms'' (JArr [])), st)"

definition getRooms :: "bool \<Rightarrow> 'r supabase \<Rightarrow> (jsval, 'r world) async" where
  "getRooms en sb =
     trySupabase en (on_remote (getRooms_operation sb)) (on_local getRooms_fallback)"

text \<open>\<^verbatim>\<open>data: data || []\<close>: a \<^verbatim>\<open>null\<close> answer counts as no rows.\<close>

definition getBanks_operation ::
  "'r supabase \<Rightarrow> 'r \<Rightarrow> (js_error + jsval response) \<times> 'r" where
  "getBanks_operation sb r =
     awaiting (sb (Select ''bank_accounts'' ''*'' None None) r)
       (\<lambda>a. \<lparr>data = Some (JArr (case rows a of None \<Rightarrow> [] | Some xs \<Rightarrow> xs)),
              error = failure a\<rparr>)"

definition getBanks_fallback :: "jsval fallback" where
  "getBanks_fallback st = (Inr (getMockData (storage st) ''bank_accounts'' (JArr [])), st)"

definition getBanks :: "bool \<Rightarrow> 'r supabase \<Rightarrow> (jsval, 'r world) async" where
  "getBanks en sb =
     trySupabase en (on_remote (getBanks_operation sb)) (on_local getBanks_fallback)"

subsection \<open>\<^verbatim>\<open>updateRegistration\<close>, lines 174-207\<close>

text \<open>
  An optional argument left out is \<open>None\<close>. \<^verbatim>\<open>if (payment_status)\<close> tests the string for
  truth, \<^verbatim>\<open>if (cost !== undefined)\<close> only for presence.
\<close>

definition updates ::
  "string \<Rightarrow> string option \<Rightarrow> int option \<Rightarrow> string option \<Rightarrow> string option
     \<Rightarrow> string option \<Rightarrow> string option \<Rightarrow> obj" where
  "updates status payment_status cost payment_detail payment_proof class_type facility_notes =
     (let u0 = [(''status'', JStr status)];
          u1 = (case payment_status of
                  Some s \<Rightarrow> if s \<noteq> [] then assign ''payment_status'' (JStr s) u0 else u0
                | None \<Rightarrow> u0);
          u2 = (case cost of Some c \<Rightarrow> assign ''cost'' (JNum c) u1 | None \<Rightarrow> u1);
          u3 = (case payment_detail of
                  Some s \<Rightarrow> if s \<noteq> [] then assign ''payment_detail'' (JStr s) u2 else u2
                | None \<Rightarrow> u2);
          u4 = (case payment_proof of
                  Some s \<Rightarrow> if s \<noteq> [] then assign ''payment_proof'' (JStr s) u3 else u3
                | None \<Rightarrow> u3);
          u5 = (case class_type of Some s \<Rightarrow> assign ''class_type'' (JStr s) u4 | None \<Rightarrow> u4);
          u6 = (case facility_notes of
                  Some s \<Rightarrow> assign ''facility_notes'' (JStr s) u5
                | None \<Rightarrow> u5)
      in u6)"

definition updateRegistration_fallback :: "int \<Rightarrow> obj \<Rightarrow> jsval fallback" where
  "updateRegistration_fallback id' u st =
     (let regs = getMockData (storage st) ''registrations'' (JArr [])
      in case array_findIndex (field_is ''id'' (JNum id')) regs of
           Inl e \<Rightarrow> (Inl e, st)
         | Inr (xs, None) \<Rightarrow> (Inr (JBool True), st)
         | Inr (xs, Some idx) \<Rightarrow>
             (Inr (JBool True),
              st\<lparr>storage := setMockData (storage st) ''registrations'' (JArr (merge_at xs idx u))\<rparr>))"

definition updateRegistration_operation ::
  "'r supabase \<Rightarrow> obj \<Rightarrow> int \<Rightarrow> 'r \<Rightarrow> (js_error + jsval response) \<times> 'r" where
  "updateRegistration_operation sb u id' r =
     awaiting (sb (Update ''registrations'' u (''id'', JNum id')) r)
       (\<lambda>a. \<lparr>data = Some (JBool True), error = failure a\<rparr>)"

definition updateRegistration ::
  "bool \<Rightarrow> 'r supabase \<Rightarrow> int \<Rightarrow> string \<Rightarrow> string option \<Rightarrow> int option \<Rightarrow> string option \<Rightarrow> string option \<Rightarrow> string option \<Rightarrow> string option \<Rightarrow> (jsval, 'r world) async" where
  "updateRegistration en sb id' status payment_status cost payment_detail payment_proof class_type facility_notes =
     (let u = updates status payment_status cost payment_detail payment_proof class_type facility_notes
      in trySupabase en (on_remote (updateRegistration_operation sb u id')) (on_local (updateRegistration_fallback id' u)))"

subsection \<open>\<^verbatim>\<open>updateMessage\<close>, lines 219-235\<close>

definition updateMessage_fallback :: "int \<Rightarrow> obj \<Rightarrow> jsval fallback" where
  "updateMessage_fallback id' d st =
     (let msgs = getMockData (storage st) ''messages'' (JArr [])
      in case array_findIndex (field_is ''id'' (JNum id')) msgs of
           Inl e \<Rightarrow> (Inl e, st)
         | Inr (xs, None) \<Rightarrow> (Inr (JBool True), st)
         | Inr (xs, Some idx) \<Rightarrow>
             (Inr (JBool True),
              st\<lparr>storage := setMockData (storage st) ''messages'' (JArr (merge_at xs idx d))\<rparr>))"

definition updateMessage_operation ::
  "'r supabase \<Rightarrow> int \<Rightarrow> obj \<Rightarrow> 'r \<Rightarrow> (js_error + jsval response) \<times> 'r" where
  "updateMessage_operation sb id' d r =
     awaiting (sb (Update ''messages'' d (''id'', JNum id')) r)
       (\<lambda>a. \<lparr>data = Some (JBool True), error = failure a\<rparr>)"

definition updateMessage ::
  "bool \<Rightarrow> 'r supabase \<Rightarrow> int \<Rightarrow> obj \<Rightarrow> (jsval, 'r world) async" where
  "updateMessage en sb id' d =
     trySupabase en (on_remote (updateMessage_operation sb id' d)) (on_local (updateMessage_fallback id' d))"

subsection \<open>Doctors, lines 238-281\<close>

text \<open>
  When \<^verbatim>\<open>docs\<close> is \<^verbatim>\<open>MOCK_DOCTORS\<close> itself, \<^verbatim>\<open>docs.push\<close> and \<^verbatim>\<open>docs[idx] = ...\<close> change the
  module's array as well as what is written to the storage. \<^verbatim>\<open>filter\<close> makes a new array.
\<close>

definition addDoctor_fallback :: "obj \<Rightarrow> int \<Rightarrow> jsval fallback" where
  "addDoctor_fallback d now st =
     (let docs = getMockData (storage st) ''doctors'' (JArr (MOCK_DOCTORS st))
      in case array_push docs (JObj (spread [(''id'', JNum now)] d)) of
           Inl e \<Rightarrow> (Inl e, st)
         | Inr docs' \<Rightarrow>
             (Inr (JBool True),
              st\<lparr>storage := setMockData (storage st) ''doctors'' (JArr docs'),
                 MOCK_DOCTORS :=
                   (if gave_default (storage st) ''doctors'' then docs' else MOCK_DOCTORS st)\<rparr>))"

definition addDoctor_operation ::
  "'r supabase \<Rightarrow> obj \<Rightarrow> 'r \<Rightarrow> (js_error + jsval response) \<times> 'r" where
  "addDoctor_operation sb d r =
     awaiting (sb (Insert ''doctors'' [JObj d] False) r)
       (\<lambda>a. \<lparr>data = Some (JBool True), error = failure a\<rparr>)"

definition addDoctor ::
  "bool \<Rightarrow> 'r supabase \<Rightarrow> obj \<Rightarrow> int \<Rightarrow> (jsval, 'r world) async" where
  "addDoctor en sb d now =
     trySupabase en (on_remote (addDoctor_operation sb d)) (on_local (addDoctor_fallback d now))"

definition updateDoctor_fallback :: "int \<Rightarrow> obj \<Rightarrow> jsval fallback" where
  "updateDoctor_fallback id' d st =
     (let docs = getMockData (storage st) ''doctors'' (JArr (MOCK_DOCTORS st))
      in case array_findIndex (field_is ''id'' (JNum id')) docs of
           Inl e \<Rightarrow> (Inl e, st)
         | Inr (xs, None) \<Rightarrow> (Inr (JBool True), st)
         | Inr (xs, Some idx) \<Rightarrow>
             (Inr (JBool True),
              st\<lparr>storage := setMockData (storage st) ''doctors'' (JArr (merge_at xs idx d)),
                 MOCK_DOCTORS :=
                   (if gave_default (storage st) ''doctors'' then merge_at xs idx d
                    else MOCK_DOCTORS st)\<rparr>))"

definition updateDoctor_operation ::
  "'r supabase \<Rightarrow> int \<Rightarrow> obj \<Rightarrow> 'r \<Rightarrow> (js_error + jsval response) \<times> 'r" where
  "updateDoctor_operation sb id' d r =
     awaiting (sb (Update ''doctors'' d (''id'', JNum id')) r)
       (\<lambda>a. \<lparr>data = Some (JBool True), error = failure a\<rparr>)"

definition updateDoctor ::
  "bool \<Rightarrow> 'r supabase \<Rightarrow> int \<Rightarrow> obj \<Rightarrow> (jsval, 'r world) async" where
  "updateDoctor en sb id' d =
     trySupabase en (on_remote (updateDoctor_operation sb id' d)) (on_local (updateDoctor_fallback id' d))"

definition deleteDoctor_fallback :: "int \<Rightarrow> jsval fallback" where
  "deleteDoctor_fallback id' st =
     (let docs = getMockData (storage st) ''doctors'' (JArr (MOCK_DOCTORS st))
      in case array_filter (field_is_not ''id'' (JNum id')) docs of
           Inl e \<Rightarrow> (Inl e, st)
         | Inr kept \<Rightarrow>
             (Inr (JBool True), st\<lparr>storage := setMockData (storage st) ''doctors'' (JArr kept)\<rparr>))"

definition deleteDoctor_operation ::
  "'r supabase \<Rightarrow> int \<Rightarrow> 'r \<Rightarrow> (js_error + jsval response) \<times> 'r" where
  "deleteDoctor_operation sb id' r =
     awaiting (sb (Delete ''doctors'' (''id'', JNum id')) r)
       (\<lambda>a. \<lparr>data = Some (JBool True), error = failure a\<rparr>)"

definition deleteDoctor ::
  "bool \<Rightarrow> 'r supabase \<Rightarrow> int \<Rightarrow> (jsval, 'r world) async" where
  "deleteDoctor en sb id' =
     trySupabase en (on_remote (deleteDoctor_operation sb id')) (on_local (deleteDoctor_fallback id'))"

subsection \<open>Users CRUD, lines 284-325\<close>

text \<open>
  Here and below the update writes the array back whether or not the identity was found:
  \<^verbatim>\<open>if(i!==-1) d[i]={...d[i],...data}; setMockData('users', d);\<close>
\<close>

definition addUser_fallback :: "obj \<Rightarrow> int \<Rightarrow> jsval fallback" where
  "addUser_fallback dat now st =
     (let d = getMockData (storage st) ''users'' (JArr [])
      in case array_push d (JObj (spread [(''id'', JNum now)] dat)) of
           Inl e \<Rightarrow> (Inl e, st)
         | Inr d' \<Rightarrow>
             (Inr (JBool True), st\<lparr>storage := setMockData (storage st) ''users'' (JArr d')\<rparr>))"

definition addUser_operation ::
  "'r supabase \<Rightarrow> obj \<Rightarrow> 'r \<Rightarrow> (js_error + jsval response) \<times> 'r" where
  "addUser_operation sb dat r =
     awaiting (sb (Insert ''users'' [JObj dat] False) r)
       (\<lambda>a. \<lparr>data = Some (JBool True), error = failure a\<rparr>)"

definition addUser ::
  "bool \<Rightarrow> 'r supabase \<Rightarrow> obj \<Rightarrow> int \<Rightarrow> (jsval, 'r world) async" where
  "addUser en sb dat now =
     trySupabase en (on_remote (addUser_operation sb dat)) (on_local (addUser_fallback dat now))"

definition updateUser_fallback :: "int \<Rightarrow> obj \<Rightarrow> jsval fallback" where
  "updateUser_fallback id' dat st =
     (let d = getMockData (storage st) ''users'' (JArr [])
      in case array_findIndex (field_is ''id'' (JNum id')) d of
           Inl e \<Rightarrow> (Inl e, st)
         | Inr (xs, i) \<Rightarrow>
             (Inr (JBool True),
              st\<lparr>storage := setMockData (storage st) ''users''
                   (JArr (case i of None \<Rightarrow> xs | Some i \<Rightarrow> merge_at xs i dat))\<rparr>))"

definition updateUser_operation ::
  "'r supabase \<Rightarrow> int \<Rightarrow> obj \<Rightarrow> 'r \<Rightarrow> (js_error + jsval response) \<times> 'r" where
  "updateUser_operation sb id' dat r =
     awaiting (sb (Update ''users'' dat (''id'', JNum id')) r)
       (\<lambda>a. \<lparr>data = Some (JBool True), error = failure a\<rparr>)"

definition updateUser ::
  "bool \<Rightarrow> 'r supabase \<Rightarrow> int \<Rightarrow> obj \<Rightarrow> (jsval, 'r world) async" where
  "updateUser en sb id' dat =
     trySupabase en (on_remote (updateUser_operation sb id' dat)) (on_local (updateUser_fallback id' dat))"

definition deleteUser_fallback :: "int \<Rightarrow> jsval fallback" where
  "deleteUser_fallback id' st =
     (let d = getMockData (storage st) ''users'' (JArr [])
      in case array_filter (field_is_not ''id'' (JNum id')) d of
           Inl e \<Rightarrow> (Inl e, st)
         | Inr kept \<Rightarrow>
             (Inr (JBool True), st\<lparr>storage := setMockData (storage st) ''users'' (JArr kept)\<rparr>))"

definition deleteUser_operation ::
  "'r supabase \<Rightarrow> int \<Rightarrow> 'r \<Rightarrow> (js_error + jsval response) \<times> 'r" where
  "deleteUser_operation sb id' r =
     awaiting (sb (Delete ''users'' (''id'', JNum id')) r)
       (\<lambda>a. \<lparr>data = Some (JBool True), error = failure a\<rparr>)"

definition deleteUser ::
  "bool \<Rightarrow> 'r supabase \<Rightarrow> int \<Rightarrow> (jsval, 'r world) async" where
  "deleteUser en sb id' =
     trySupabase en (on_remote (deleteUser_operation sb id')) (on_local (deleteUser_fallback id'))"

subsection \<open>BPJS CRUD, lines 328-354\<close>

definition addBPJS_fallback :: "obj \<Rightarrow> int \<Rightarrow> jsval fallback" where
  "addBPJS_fallback dat now st =
     (let d = getMockData (storage st) ''bpjs_data'' (JArr [])
      in case array_push d (JObj (spread [(''id'', JNum now)] dat)) of
           Inl e \<Rightarrow> (Inl e, st)
         | Inr d' \<Rightarrow>
             (Inr (JBool True), st\<lparr>storage := setMockData (storage st) ''bpjs_data'' (JArr d')\<rparr>))"

definition addBPJS_operation ::
  "'r supabase \<Rightarrow> obj \<Rightarrow> 'r \<Rightarrow> (js_error + jsval response) \<times> 'r" where
  "addBPJS_operation sb dat r =
     awaiting (sb (Insert ''bpjs_data'' [JObj dat] False) r)
       (\<lambda>a. \<lparr>data = Some (JBool True), error = failure a\<rparr>)"

definition addBPJS ::
  "bool \<Rightarrow> 'r supabase \<Rightarrow> obj \<Rightarrow> int \<Rightarrow> (jsval, 'r world) async" where
  "addBPJS en sb dat now =
     trySupabase en (on_remote (addBPJS_operation sb dat)) (on_local (addBPJS_fallback dat now))"

definition updateBPJS_fallback :: "int \<Rightarrow> obj \<Rightarrow> jsval fallback" where
  "updateBPJS_fallback id' dat st =
     (let d = getMockData (storage st) ''bpjs_data'' (JArr [])
      in case array_findIndex (field_is ''id'' (JNum id')) d of
           Inl e \<Rightarrow> (Inl e, st)
         | Inr (xs, i) \<Rightarrow>
             (Inr (JBool True),
              st\<lparr>storage := setMockData (storage st) ''bpjs_data''
                   (JArr (case i of None \<Rightarrow> xs | Some i \<Rightarrow> merge_at xs i dat))\<rparr>))"

definition updateBPJS_operation ::
  "'r supabase \<Rightarrow> int \<Rightarrow> obj \<Rightarrow> 'r \<Rightarrow> (js_error + jsval response) \<times> 'r" where
  "updateBPJS_operation sb id' dat r =
     awaiting (sb (Update ''bpjs_data'' dat (''id'', JNum id')) r)
       (\<lambda>a. \<lparr>data = Some (JBool True), error = failure a\<rparr>)"

definition updateBPJS ::
  "bool \<Rightarrow> 'r supabase \<Rightarrow> int \<Rightarrow> obj \<Rightarrow> (jsval, 'r world) async" where
  "updateBPJS en sb id' dat =
     trySupabase en (on_remote (updateBPJS_operation sb id' dat)) (on_local (updateBPJS_fallback id' dat))"

definition deleteBPJS_fallback :: "int \<Rightarrow> jsval fallback" where
  "deleteBPJS_fallback id' st =
     (let d = getMockData (storage st) ''bpjs_data'' (JArr [])
      in case array_filter (field_is_not ''id'' (JNum id')) d of
           Inl e \<Rightarrow> (Inl e, st)
         | Inr kept \<Rightarrow>
             (Inr (JBool True), st\<lparr>storage := setMockData (storage st) ''bpjs_data'' (JArr kept)\<rparr>))"

definition deleteBPJS_operation ::
  "'r supabase \<Rightarrow> int \<Rightarrow> 'r \<Rightarrow> (js_error + jsval response) \<times> 'r" where
  "deleteBPJS_operation sb id' r =
     awaiting (sb (Delete ''bpjs_data'' (''id'', JNum id')) r)
       (\<lambda>a. \<lparr>data = Some (JBool True), error = failure a\<rparr>)"

definition deleteBPJS ::
  "bool \<Rightarrow> 'r supabase \<Rightarrow> int \<Rightarrow> (jsval, 'r world) async" where
  "deleteBPJS en sb id' =
     trySupabase en (on_remote (deleteBPJS_operation sb id')) (on_local (deleteBPJS_fallback id'))"

subsection \<open>Facilities, lines 357-380\<close>

definition addFacility_fallback :: "obj \<Rightarrow> int \<Rightarrow> jsval fallback" where
  "addFacility_fallback dat now st =
     (let d = getMockData (storage st) ''facilities'' (JArr [])
      in case array_push d (JObj (spread [(''id'', JNum now)] dat)) of
           Inl e \<Rightarrow> (Inl e, st)
         | Inr d' \<Rightarrow>
             (Inr (JBool True), st\<lparr>storage := setMockData (storage st) ''facilities'' (JArr d')\<rparr>))"

definition addFacility_operation ::
  "'r supabase \<Rightarrow> obj \<Rightarrow> 'r \<Rightarrow> (js_error + jsval response) \<times> 'r" where
  "addFacility_operation sb dat r =
     awaiting (sb (Insert ''facilities'' [JObj dat] False) r)
       (\<lambda>a. \<lparr>data = Some (JBool True), error = failure a\<rparr>)"

definition addFacility ::
  "bool \<Rightarrow> 'r supabase \<Rightarrow> obj \<Rightarrow> int \<Rightarrow> (jsval, 'r world) async" where
  "addFacility en sb dat now =
     trySupabase en (on_remote (addFacility_operation sb dat)) (on_local (addFacility_fallback dat now))"

definition updateFacility_fallback :: "int \<Rightarrow> obj \<Rightarrow> jsval fallback" where
  "updateFacility_fallback id' dat st =
     (let d = getMockData (storage st) ''facilities'' (JArr [])
      in case array_findIndex (field_is ''id'' (JNum id')) d of
           Inl e \<Rightarrow> (Inl e, st)
         | Inr (xs, i) \<Rightarrow>
             (Inr (JBool True),
              st\<lparr>storage := setMockData (storage st) ''facilities''
                   (JArr (case i of None \<Rightarrow> xs | Some i \<Rightarrow> merge_at xs i dat))\<rparr>))"

definition updateFacility_operation ::
  "'r supabase \<Rightarrow> int \<Rightarrow> obj \<Rightarrow> 'r \<Rightarrow> (js_error + jsval response) \<times> 'r" where
  "updateFacility_operation sb id' dat r =
     awaiting (sb (Update ''facilities'' dat (''id'', JNum id')) r)
       (\<lambda>a. \<lparr>data = Some (JBool True), error = failure a\<rparr>)"

definition updateFacility ::
  "bool \<Rightarrow> 'r supabase \<Rightarrow> int \<Rightarrow> obj \<Rightarrow> (jsval, 'r world) async" where
  "updateFacility en sb id' dat =
     trySupabase en (on_remote (updateFacility_operation sb id' dat)) (on_local (updateFacility_fallback id' dat))"

definition deleteFacility_fallback :: "int \<Rightarrow> jsval fallback" where
  "deleteFacility_fallback id' st =
     (let d = getMockData (storage st) ''facilities'' (JArr [])
      in case array_filter (field_is_not ''id'' (JNum id')) d of
           Inl e \<Rightarrow> (Inl e, st)
         | Inr kept \<Rightarrow>
             (Inr (JBool True), st\<lparr>storage := setMockData (storage st) ''facilities'' (JArr kept)\<rparr>))"

definition deleteFacility_operation ::
  "'r supabase \<Rightarrow> int \<Rightarrow> 'r \<Rightarrow> (js_error + jsval response) \<times> 'r" where
  "deleteFacility_operation sb id' r =
     awaiting (sb (Delete ''facilities'' (''id'', JNum id')) r)
       (\<lambda>a. \<lparr>data = Some (JBool True), error = failure a\<rparr>)"

definition deleteFacility ::
  "bool \<Rightarrow> 'r supabase \<Rightarrow> int \<Rightarrow> (jsval, 'r world) async" where
  "deleteFacility en sb id' =
     trySupabase en (on_remote (deleteFacility_operation sb id')) (on_local (deleteFacility_fallback id'))"

subsection \<open>Rooms, lines 383-406\<close>

definition addRoom_fallback :: "obj \<Rightarrow> int \<Rightarrow> jsval fallback" where
  "addRoom_fallback dat now st =
     (let d = getMockData (storage st) ''rooms'' (JArr [])
      in case array_push d (JObj (spread [(''id'', JNum now)] dat)) of
           Inl e \<Rightarrow> (Inl e, st)
         | Inr d' \<Rightarrow>
             (Inr (JBool True), st\<lparr>storage := setMockData (storage st) ''rooms'' (JArr d')\<rparr>))"

definition addRoom_operation ::
  "'r supabase \<Rightarrow> obj \<Rightarrow> 'r \<Rightarrow> (js_error + jsval response) \<times> 'r" where
  "addRoom_operation sb dat r =
     awaiting (sb (Insert ''rooms'' [JObj dat] False) r)
       (\<lambda>a. \<lparr>data = Some (JBool True), error = failure a\<rparr>)"

definition addRoom ::
  "bool \<Rightarrow> 'r supabase \<Rightarrow> obj \<Rightarrow> int \<Rightarrow> (jsval, 'r world) async" where
  "addRoom en sb dat now =
     trySupabase en (on_remote (addRoom_operation sb dat)) (on_local (addRoom_fallback dat now))"

definition updateRoom_fallback :: "int \<Rightarrow> obj \<Rightarrow> jsval fallback" where
  "updateRoom_fallback id' dat st =
     (let d = getMockData (storage st) ''rooms'' (JArr [])
      in case array_findIndex (field_is ''id'' (JNum id')) d of
           Inl e \<Rightarrow> (Inl e, st)
         | Inr (xs, i) \<Rightarrow>
             (Inr (JBool True),
              st\<lparr>storage := setMockData (storage st) ''rooms''
                   (JArr (case i of None \<Rightarrow> xs | Some i \<Rightarrow> merge_at xs i dat))\<rparr>))"

definition updateRoom_operation ::
  "'r supabase \<Rightarrow> int \<Rightarrow> obj \<Rightarrow> 'r \<Rightarrow> (js_error + jsval response) \<times> 'r" where
  "updateRoom_operation sb id' dat r =
     awaiting (sb (Update ''rooms'' dat (''id'', JNum id')) r)
       (\<lambda>a. \<lparr>data = Some (JBool True), error = failure a\<rparr>)"

definition updateRoom ::
  "bool \<Rightarrow> 'r supabase \<Rightarrow> int \<Rightarrow> obj \<Rightarrow> (jsval, 'r world) async" where
  "updateRoom en sb id' dat =
     trySupabase en (on_remote (updateRoom_operation sb id' dat)) (on_local (updateRoom_fallback id' dat))"

definition deleteRoom_fallback :: "int \<Rightarrow> jsval fallback" where
  "deleteRoom_fallback id' st =
     (let d = getMockData (storage st) ''rooms'' (JArr [])
      in case array_filter (field_is_not ''id'' (JNum id')) d of
           Inl e \<Rightarrow> (Inl e, st)
         | Inr kept \<Rightarrow>
             (Inr (JBool True), st\<lparr>storage := setMockData (storage st) ''rooms'' (JArr kept)\<rparr>))"

definition deleteRoom_operation ::
  "'r supabase \<Rightarrow> int \<Rightarrow> 'r \<Rightarrow> (js_error + jsval response) \<times> 'r" where
  "deleteRoom_operation sb id' r =
     awaiting (sb (Delete ''rooms'' (''id'', JNum id')) r)
       (\<lambda>a. \<lparr>data = Some (JBool True), error = failure a\<rparr>)"

definition deleteRoom ::
  "bool \<Rightarrow> 'r supabase \<Rightarrow> int \<Rightarrow> (jsval, 'r world) async" where
  "deleteRoom en sb id' =
     trySupabase en (on_remote (deleteRoom_operation sb id')) (on_local (deleteRoom_fallback id'))"

subsection \<open>Banks, lines 409-435\<close>

definition addBank_fallback :: "obj \<Rightarrow> int \<Rightarrow> jsval fallback" where
  "addBank_fallback dat now st =
     (let d = getMockData (storage st) ''bank_accounts'' (JArr [])
      in case array_push d (JObj (spread [(''id'', JNum now)] dat)) of
           Inl e \<Rightarrow> (Inl e, st)
         | Inr d' \<Rightarrow>
             (Inr (JBool True), st\<lparr>storage := setMockData (storage st) ''bank_accounts'' (JArr d')\<rparr>))"

definition addBank_operation ::
  "'r supabase \<Rightarrow> obj \<Rightarrow> 'r \<Rightarrow> (js_error + jsval response) \<times> 'r" where
  "addBank_operation sb dat r =
     awaiting (sb (Insert ''bank_accounts'' [JObj dat] False) r)
       (\<lambda>a. \<lparr>data = Some (JBool True), error = failure a\<rparr>)"

definition addBank ::
  "bool \<Rightarrow> 'r supabase \<Rightarrow> obj \<Rightarrow> int \<Rightarrow> (jsval, 'r world) async" where
  "addBank en sb dat now =
     trySupabase en (on_remote (addBank_operation sb dat)) (on_local (addBank_fallback dat now))"

definition updateBank_fallback :: "int \<Rightarrow> obj \<Rightarrow> jsval fallback" where
  "updateBank_fallback id' dat st =
     (let d = getMockData (storage st) ''bank_accounts'' (JArr [])
      in case array_findIndex (field_is ''id'' (JNum id')) d of
           Inl e \<Rightarrow> (Inl e, st)
         | Inr (xs, i) \<Rightarrow>
             (Inr (JBool True),
              st\<lparr>storage := setMockData (storage st) ''bank_accounts''
                   (JArr (case i of None \<Rightarrow> xs | Some i \<Rightarrow> merge_at xs i dat))\<rparr>))"

definition updateBank_operation ::
  "'r supabase \<Rightarrow> int \<Rightarrow> obj \<Rightarrow> 'r \<Rightarrow> (js_error + jsval response) \<times> 'r" where
  "updateBank_operation sb id' dat r =
     awaiting (sb (Update ''bank_accounts'' dat (''id'', JNum id')) r)
       (\<lambda>a. \<lparr>data = Some (JBool True), error = failure a\<rparr>)"

definition updateBank ::
  "bool \<Rightarrow> 'r supabase \<Rightarrow> int \<Rightarrow> obj \<Rightarrow> (jsval, 'r world) async" where
  "updateBank en sb id' dat =
     trySupabase en (on_remote (updateBank_operation sb id' dat)) (on_local (updateBank_fallback id' dat))"

definition deleteBank_fallback :: "int \<Rightarrow> jsval fallback" where
  "deleteBank_fallback id' st =
     (let d = getMockData (storage st) ''bank_accounts'' (JArr [])
      in case array_filter (field_is_not ''id'' (JNum id')) d of
           Inl e \<Rightarrow> (Inl e, st)
         | Inr kept \<Rightarrow>
             (Inr (JBool True), st\<lparr>storage := setMockData (storage st) ''bank_accounts'' (JArr kept)\<rparr>))"

definition deleteBank_operation ::
  "'r supabase \<Rightarrow> int \<Rightarrow> 'r \<Rightarrow> (js_error + jsval response) \<times> 'r" where
  "deleteBank_operation sb id' r =
     awaiting (sb (Delete ''bank_accounts'' (''id'', JNum id')) r)
       (\<lambda>a. \<lparr>data = Some (JBool True), error = failure a\<rparr>)"

definition deleteBank ::
  "bool \<Rightarrow> 'r supabase \<Rightarrow> int \<Rightarrow> (jsval, 'r world) async" where
  "deleteBank en sb id' =
     trySupabase en (on_remote (deleteBank_operation sb id')) (on_local (deleteBank_fallback id'))"

subsection \<open>The object \<^verbatim>\<open>api\<close>\<close>

text \<open>One call of one of the operations, with its arguments and what it reads of the clock.\<close>

datatype request =
    CheckNik string
  | GetDoctors
  | LoginPatient string
  | RegisterPatient obj real string int
  | SendMessage obj int string
  | GetRegistrations
  | UpdateRegistration int string "string option" "int option" "string option" "string option"
      "string option" "string option"
  | GetMessages
  | UpdateMessage int obj
  | AddDoctor obj int
  | UpdateDoctor int obj
  | DeleteDoctor int
  | GetUsers
  | AddUser obj int
  | UpdateUser int obj
  | DeleteUser int
  | GetBPJS
  | AddBPJS obj int
  | UpdateBPJS int obj
  | DeleteBPJS int
  | GetFacilities
  | AddFacility obj int
  | UpdateFacility int obj
  | DeleteFacility int
  | GetRooms
  | AddRoom obj int
  | UpdateRoom int obj
  | DeleteRoom int
  | GetBanks
  | AddBank obj int
  | UpdateBank int obj
  | DeleteBank int

fun api :: "bool \<Rightarrow> 'r supabase \<Rightarrow> request \<Rightarrow> (jsval, 'r world) async" where
  "api en sb (CheckNik nik) = checkNik en sb nik"
| "api en sb GetDoctors = getDoctors en sb"
| "api en sb (LoginPatient nik) = loginPatient en sb nik"
| "api en sb (RegisterPatient d rnd stamp now) = registerPatient en sb d rnd stamp now"
| "api en sb (SendMessage d now stamp) = sendMessage en sb d now stamp"
| "api en sb GetRegistrations = getRegistrations en sb"
| "api en sb (UpdateRegistration id' status ps cost pd pp ct fn) =
     updateRegistration en sb id' status ps cost pd pp ct fn"
| "api en sb GetMessages = getMessages en sb"
| "api en sb (UpdateMessage id' d) = updateMessage en sb id' d"
| "api en sb (AddDoctor d now) = addDoctor en sb d now"
| "api en sb (UpdateDoctor id' d) = updateDoctor en sb id' d"
| "api en sb (DeleteDoctor id') = deleteDoctor en sb id'"
| "api en sb GetUsers = getUsers en sb"
| "api en sb (AddUser d now) = addUser en sb d now"
| "api en sb (UpdateUser id' d) = updateUser en sb id' d"
| "api en sb (DeleteUser id') = deleteUser en sb id'"
| "api en sb GetBPJS = getBPJS en sb"
| "api en sb (AddBPJS d now) = addBPJS en sb d now"
| "api en sb (UpdateBPJS id' d) = updateBPJS en sb id' d"
| "api en sb (DeleteBPJS id') = deleteBPJS en sb id'"
| "api en sb GetFacilities = getFacilities en sb"
| "api en sb (AddFacility d now) = addFacility en sb d now"
| "api en sb (UpdateFacility id' d) = updateFacility en sb id' d"
| "api en sb (DeleteFacility id') = deleteFacility en sb id'"
| "api en sb GetRooms = getRooms en sb"
| "api en sb (AddRoom d now) = addRoom en sb d now"
| "api en sb (UpdateRoom id' d) = updateRoom en sb id' d"
| "api en sb (DeleteRoom id') = deleteRoom en sb id'"
| "api en sb GetBanks = getBanks en sb"
| "api en sb (AddBank d now) = addBank en sb d now"
| "api en sb (UpdateBank id' d) = updateBank en sb id' d"
| "api en sb (DeleteBank id') = deleteBank en sb id'"

text \<open>The two closures an operation hands to the wrapper.\<close>

fun operation_of :: "'r supabase \<Rightarrow> request \<Rightarrow> 'r \<Rightarrow> (js_error + jsval response) \<times> 'r" where
  "operation_of sb (CheckNik nik) = checkNik_operation sb nik"
| "operation_of sb GetDoctors = getDoctors_operation sb"
| "operation_of sb (LoginPatient nik) = loginPatient_operation sb nik"
| "operation_of sb (RegisterPatient d rnd stamp now) =
     registerPatient_operation sb (newData d rnd stamp)"
| "operation_of sb (SendMessage d now stamp) = sendMessage_operation sb d"
| "operation_of sb GetRegistrations = getRegistrations_operation sb"
| "operation_of sb (UpdateRegistration id' status ps cost pd pp ct fn) =
     updateRegistration_operation sb (updates status ps cost pd pp ct fn) id'"
| "operation_of sb GetMessages = getMessages_operation sb"
| "operation_of sb (UpdateMessage id' d) = updateMessage_operation sb id' d"
| "operation_of sb (AddDoctor d now) = addDoctor_operation sb d"
| "operation_of sb (UpdateDoctor id' d) = updateDoctor_operation sb id' d"
| "operation_of sb (DeleteDoctor id') = deleteDoctor_operation sb id'"
| "operation_of sb GetUsers = getUsers_operation sb"
| "operation_of sb (AddUser d now) = addUser_operation sb d"
| "operation_of sb (UpdateUser id' d) = updateUser_operation sb id' d"
| "operation_of sb (DeleteUser id') = deleteUser_operation sb id'"
| "operation_of sb GetBPJS = getBPJS_operation sb"
| "operation_of sb (AddBPJS d now) = addBPJS_operation sb d"
| "operation_of sb (UpdateBPJS id' d) = updateBPJS_operation sb id' d"
| "operation_of sb (DeleteBPJS id') = deleteBPJS_operation sb id'"
| "operation_of sb GetFacilities = getFacilities_operation sb"
| "operation_of sb (AddFacility d now) = addFacility_operation sb d"
| "operation_of sb (UpdateFacility id' d) = updateFacility_operation sb id' d"
| "operation_of sb (DeleteFacility id') = deleteFacility_operation sb id'"
| "operation_of sb GetRooms = getRooms_operation sb"
| "operation_of sb (AddRoom d now) = addRoom_operation sb d"
| "operation_of sb (UpdateRoom id' d) = updateRoom_operation sb id' d"
| "operation_of sb (DeleteRoom id') = deleteRoom_operation sb id'"
| "operation_of sb GetBanks = getBanks_operation sb"
| "operation_of sb (AddBank d now) = addBank_operation sb d"
| "operation_of sb (UpdateBank id' d) = updateBank_operation sb id' d"
| "operation_of sb (DeleteBank id') = deleteBank_operation sb id'"

fun fallback_of :: "request \<Rightarrow> jsval fallback" where
  "fallback_of (CheckNik nik) = checkNik_fallback nik"
| "fallback_of GetDoctors = getDoctors_fallback"
| "fallback_of (LoginPatient nik) = loginPatient_fallback nik"
| "fallback_of (RegisterPatient d rnd stamp now) =
     registerPatient_fallback (newData d rnd stamp) now"
| "fallback_of (SendMessage d now stamp) = sendMessage_fallback d now stamp"
| "fallback_of GetRegistrations = getRegistrations_fallback"
| "fallback_of (UpdateRegistration id' status ps cost pd pp ct fn) =
     updateRegistration_fallback id' (updates status ps cost pd pp ct fn)"
| "fallback_of GetMessages = getMessages_fallback"
| "fallback_of (UpdateMessage id' d) = updateMessage_fallback id' d"
| "fallback_of (AddDoctor d now) = addDoctor_fallback d now"
| "fallback_of (UpdateDoctor id' d) = updateDoctor_fallback id' d"
| "fallback_of (DeleteDoctor id') = deleteDoctor_fallback id'"
| "fallback_of GetUsers = getUsers_fallback"
| "fallback_of (AddUser d now) = addUser_fallback d now"
| "fallback_of (UpdateUser id' d) = updateUser_fallback id' d"
| "fallback_of (DeleteUser id') = deleteUser_fallback id'"
| "fallback_of GetBPJS = getBPJS_fallback"
| "fallback_of (AddBPJS d now) = addBPJS_fallback d now"
| "fallback_of (UpdateBPJS id' d) = updateBPJS_fallback id' d"
| "fallback_of (DeleteBPJS id') = deleteBPJS_fallback id'"
| "fallback_of GetFacilities = getFacilities_fallback"
| "fallback_of (AddFacility d now) = addFacility_fallback d now"
| "fallback_of (UpdateFacility id' d) = updateFacility_fallback id' d"
| "fallback_of (DeleteFacility id') = deleteFacility_fallback id'"
| "fallback_of GetRooms = getRooms_fallback"
| "fallback_of (AddRoom d now) = addRoom_fallback d now"
| "fallback_of (UpdateRoom id' d) = updateRoom_fallback id' d"
| "fallback_of (DeleteRoom id') = deleteRoom_fallback id'"
| "fallback_of GetBanks = getBanks_fallback"
| "fallback_of (AddBank d now) = addBank_fallback d now"
| "fallback_of (UpdateBank id' d) = updateBank_fallback id' d"
| "fallback_of (DeleteBank id') = deleteBank_fallback id'"

section \<open>Collections of the fallback store\<close>

text \<open>
  The words the properties below are stated in. A record is an object. The collection
  under a key is what a fallback reads there: the stored array, or the default that the
  operations of that key pass to \<^verbatim>\<open>getMockData\<close> (\<^verbatim>\<open>MOCK_DOCTORS\<close> for the doctors, the empty
  array otherwise).
\<close>

definition is_record :: "jsval \<Rightarrow> bool" where
  "is_record v = (case v of JObj kvs \<Rightarrow> True | _ \<Rightarrow> False)"

definition default_of :: "string \<Rightarrow> local_state \<Rightarrow> jsval" where
  "default_of key st = (if key = ''doctors'' then JArr (MOCK_DOCTORS st) else JArr [])"

definition collection :: "string \<Rightarrow> local_state \<Rightarrow> jsval" where
  "collection key st = getMockData (storage st) key (default_of key st)"




text \<open>
  The remote attempt behind a fallback: the query threw or answered with an error. And
  the remote attempt behind a remote result: the operation returned data and no error.
\<close>

definition remote_failed :: "(js_error + sb_answer) \<times> 'r \<Rightarrow> bool" where
  "remote_failed q = (case fst q of Inl e \<Rightarrow> True | Inr a \<Rightarrow> truthy (failure a))"

definition succeeded :: "(js_error + 'a response) \<times> 'r \<Rightarrow> bool" where
  "succeeded x = (case fst x of Inl e \<Rightarrow> False | Inr r \<Rightarrow> data r \<noteq> None \<and> \<not> truthy (error r))"

section \<open>Examples to run the model on\<close>

text \<open>
  For the wrapper alone the world is a pair of counters: how often the remote operation
  and the fallback have run.
\<close>

definition remote_answers :: "int response \<Rightarrow> (int response, nat \<times> nat) async" where
  "remote_answers r w = (Inr r, (Suc (fst w), snd w))"

definition remote_throws :: "(int response, nat \<times> nat) async" where
  "remote_throws w = (Inl NetworkError, (Suc (fst w), snd w))"

definition local_answers :: "int \<Rightarrow> (int, nat \<times> nat) async" where
  "local_answers v w = (Inr v, (fst w, Suc (snd w)))"

text \<open>
  A storage with room, one that is full (any write goes beyond the quota), and one the
  browser denies access to.
\<close>

definition roomy :: "(string \<times> string) list \<Rightarrow> localStorage" where
  "roomy kvs = \<lparr>items = kvs, quota = 5000000, denied = False\<rparr>"

definition full :: "(string \<times> string) list \<Rightarrow> localStorage" where
  "full kvs = \<lparr>items = kvs, quota = usage kvs, denied = False\<rparr>"

definition blocked :: localStorage where
  "blocked = \<lparr>items = [], quota = 5000000, denied = True\<rparr>"

text \<open>
  Three remote clients: one that cannot be reached, one that carries out the query and
  loses the answer, one that carries it out and answers. The remote state of the last two
  is the list of queries carried out.
\<close>

definition offline :: "unit supabase" where
  "offline q r = (Inl NetworkError, r)"

definition lossy :: "sb_query list supabase" where
  "lossy q r = (Inl NetworkError, r @ [q])"

definition healthy :: "sb_query list supabase" where
  "healthy q r = (Inr \<lparr>rows = Some [], failure = JNull\<rparr>, r @ [q])"

text \<open>A browser with two registrations and one user stored, and a registration form.\<close>

definition desk :: local_state where
  "desk = \<lparr>storage = roomy
       [(''registrations'',
         ''[{\"id\":11,\"nik\":\"3502010101900001\",\"status\":\"Pending\",\"cost\":0},{\"id\":12,\"nik\":\"3502010101900002\"}]''),
        (''users'', ''[{\"id\":1,\"name\":\"admin\"}]'')],
     MOCK_DOCTORS = initial_MOCK_DOCTORS\<rparr>"

definition patient :: obj where
  "patient = [(''nik'', JStr ''3502010101900003''), (''name'', JStr ''Sri''), (''payment'', JStr ''bpjs'')]"

text \<open>Worlds: the desk with no remote state, an empty browser, and a browser whose storage is full.\<close>

definition counter :: "unit world" where
  "counter = \<lparr>remote = (), local = desk\<rparr>"

definition fresh :: "sb_query list world" where
  "fresh = \<lparr>remote = [], local = \<lparr>storage = roomy [], MOCK_DOCTORS = initial_MOCK_DOCTORS\<rparr>\<rparr>"

definition crowded :: "unit world" where
  "crowded = \<lparr>remote = (), local = \<lparr>storage = full [], MOCK_DOCTORS = initial_MOCK_DOCTORS\<rparr>\<rparr>"

definition newcomer :: obj where
  "newcomer = [(''name'', JStr ''Budi'')]"

section \<open>Auxiliary notions\<close>

text \<open>What may follow a value, and a number, in JSON text; and the characters a value starts with.\<close>

definition value_end :: "string \<Rightarrow> bool" where
  "value_end r = (case r of [] \<Rightarrow> True | c # _ \<Rightarrow> c = CHR '','' \<or> c = CHR '']'' \<or> c = CHR ''}'')"

definition number_end :: "string \<Rightarrow> bool" where
  "number_end r = (case r of [] \<Rightarrow> True | c # _ \<Rightarrow> \<not> is_digit c \<and> c \<noteq> CHR ''.'' \<and> c \<noteq> CHR ''e'' \<and> c \<noteq> CHR ''E'')"

definition starts_value :: "char \<Rightarrow> bool" where
  "starts_value c \<longleftrightarrow> \<not> is_ws c \<and> c \<noteq> CHR '']'' \<and> c \<noteq> CHR ''}''"


text \<open>The entries of the update object of \<^verbatim>\<open>updateRegistration\<close>, one argument at a time.\<close>

definition given_text :: "string \<Rightarrow> string option \<Rightarrow> obj" where
  "given_text k a = (case a of Some s \<Rightarrow> if s \<noteq> [] then [(k, JStr s)] else [] | None \<Rightarrow> [])"

definition given :: "string \<Rightarrow> jsval option \<Rightarrow> obj" where
  "given k a = (case a of Some v \<Rightarrow> [(k, v)] | None \<Rightarrow> [])"

section \<open>Facts about JSON text\<close>

subsection \<open>Numbers\<close>

lemma is_digit_digit_char: "d < 10 \<Longrightarrow> is_digit (digit_char d)"
  by (simp add: is_digit_def digit_char_def)

lemma digit_val_digit_char: "d < 10 \<Longrightarrow> digit_val (digit_char d) = d"
  by (simp add: digit_val_def digit_char_def)

lemma dec_nat_digits: "c \<in> set (dec_nat n) \<Longrightarrow> is_digit c"
proof (induction n arbitrary: c rule: dec_nat.induct)
  case (1 n)
  then show ?case
    by (subst (asm) (2) dec_nat.simps) (auto simp: is_digit_digit_char split: if_splits)
qed

lemma dec_nat_nonempty: "dec_nat n \<noteq> []"
  by (subst dec_nat.simps) simp

lemma digits_val_snoc: "digits_val (ds @ [c]) = 10 * digits_val ds + digit_val c"
  by (simp add: digits_val_def)

lemma digits_val_dec_nat: "digits_val (dec_nat n) = n"
proof (induction n rule: dec_nat.induct)
  case (1 n)
  show ?case
  proof (cases "n < 10")
    case True
    then show ?thesis
      by (subst dec_nat.simps) (simp add: digits_val_def digit_val_digit_char)
  next
    case False
    with 1 show ?thesis
      by (subst dec_nat.simps) (simp add: digits_val_snoc digit_val_digit_char)
  qed
qed

lemma of_char_digit_char: "d < 10 \<Longrightarrow> (of_char (digit_char d) :: nat) = 48 + d"
  by (simp add: digit_char_def)

lemma digit_char_0: "digit_char 0 = CHR ''0''"
  by (rule of_char_eqI [where ?'a = nat]) (simp add: digit_char_def)

lemma digit_char_pos: "0 < d \<Longrightarrow> d < 10 \<Longrightarrow> digit_char d \<noteq> CHR ''0''"
proof
  assume "0 < d" "d < 10" "digit_char d = CHR ''0''"
  then have "(of_char (digit_char d) :: nat) = of_char CHR ''0''" by simp
  with \<open>d < 10\<close> \<open>0 < d\<close> show False by (simp add: of_char_digit_char)
qed

lemma hd_dec_nat: "0 < n \<Longrightarrow> hd (dec_nat n) \<noteq> CHR ''0''"
proof (induction n rule: dec_nat.induct)
  case (1 n)
  show ?case
  proof (cases "n < 10")
    case True
    with 1(2) show ?thesis
      by (subst dec_nat.simps) (simp add: digit_char_pos)
  next
    case False
    then have "0 < n div 10" by simp
    with 1(1) False have "hd (dec_nat (n div 10)) \<noteq> CHR ''0''" by simp
    with False show ?thesis
      by (subst dec_nat.simps) (simp add: dec_nat_nonempty)
  qed
qed

lemma dec_nat_zero: "dec_nat 0 = ''0''"
  by (subst dec_nat.simps) (simp add: digit_char_0)

lemma parse_nat_dec_nat:
  assumes "number_end r"
  shows "parse_nat (dec_nat n @ r) = Some (n, r)"
proof -
  have tw: "takeWhile is_digit r = []" and dw: "dropWhile is_digit r = r"
    using assms by (cases r; simp add: number_end_def)+
  have t: "takeWhile is_digit (dec_nat n @ r) = dec_nat n"
    using dec_nat_digits tw by (simp add: takeWhile_append2)
  have d: "dropWhile is_digit (dec_nat n @ r) = r"
    using dec_nat_digits dw by (simp add: dropWhile_append2)
  have f: "\<not> frac_or_exp r"
    using assms by (cases r) (simp_all add: number_end_def frac_or_exp_def)
  have z: "\<not> (hd (dec_nat n) = CHR ''0'' \<and> 1 < length (dec_nat n))"
  proof (cases "n = 0")
    case True
    then show ?thesis by (simp add: dec_nat_zero)
  next
    case False
    then show ?thesis using hd_dec_nat [of n] by simp
  qed
  show ?thesis
    unfolding parse_nat_def Let_def t d using f z
    by (simp add: dec_nat_nonempty digits_val_dec_nat)
qed

lemma hd_dec_nat_not_minus: "hd (dec_nat n) \<noteq> CHR ''-''"
proof -
  have "hd (dec_nat n) \<in> set (dec_nat n)" by (simp add: dec_nat_nonempty)
  then have "is_digit (hd (dec_nat n))" by (rule dec_nat_digits)
  then show ?thesis by (auto simp: is_digit_def)
qed

lemma parse_number_dec_int:
  assumes "number_end r"
  shows "parse_number (dec_int i @ r) = Some (i, r)"
proof (cases "i < 0")
  case True
  then show ?thesis
    by (simp add: parse_number_def dec_int_def parse_nat_dec_nat [OF assms])
next
  case False
  obtain c cs where cs: "dec_nat (nat i) = c # cs"
    using dec_nat_nonempty [of "nat i"] by (cases "dec_nat (nat i)") auto
  with hd_dec_nat_not_minus [of "nat i"] have "c \<noteq> CHR ''-''" by simp
  moreover have "parse_nat ((c # cs) @ r) = Some (nat i, r)"
    using parse_nat_dec_nat [OF assms, of "nat i"] cs by simp
  ultimately show ?thesis
    using False by (simp add: parse_number_def dec_int_def cs)
qed

subsection \<open>Strings\<close>

lemma hex_val_hex_char: "d < 16 \<Longrightarrow> hex_val (hex_char d) = Some d"
  by (auto simp: hex_val_def hex_char_def Let_def)

lemma hex4_low: "n < 32 \<Longrightarrow> hex4 CHR ''0'' CHR ''0'' (hex_char (n div 16)) (hex_char (n mod 16)) = Some (char_of n)"
proof -
  assume n: "n < 32"
  have 0: "hex_val CHR ''0'' = Some 0" by (simp add: hex_val_def)
  have a: "hex_val (hex_char (n div 16)) = Some (n div 16)"
    using n by (intro hex_val_hex_char) simp
  have b: "hex_val (hex_char (n mod 16)) = Some (n mod 16)"
    by (intro hex_val_hex_char) simp
  show ?thesis using n by (simp add: hex4_def 0 a b)
qed

lemma parse_string_esc_char:
  "parse_string (esc_char c @ rest) = consing c (parse_string rest)"
proof -
  let ?n = "of_char c :: nat"
  have c: "c = char_of ?n" by simp
  consider "?n = 34" | "?n = 92" | "?n = 8" | "?n = 12" | "?n = 10" | "?n = 13" | "?n = 9"
    | "?n < 32" "?n \<notin> {8, 9, 10, 12, 13}" | "32 \<le> ?n" "?n \<noteq> 34" "?n \<noteq> 92"
    by fastforce
  then show ?thesis
  proof cases
    case 1
    then have "c = DQUOTE" by (intro of_char_eqI [where ?'a = nat]) simp
    then show ?thesis by (simp add: esc_char_def unescape_def)
  next
    case 2
    then have "c = BACKSLASH" by (intro of_char_eqI [where ?'a = nat]) simp
    then show ?thesis by (simp add: esc_char_def unescape_def)
  next
    case 3
    then have "c = CHR 0x08" by (intro of_char_eqI [where ?'a = nat]) simp
    then show ?thesis by (simp add: esc_char_def unescape_def)
  next
    case 4
    then have "c = CHR 0x0C" by (intro of_char_eqI [where ?'a = nat]) simp
    then show ?thesis by (simp add: esc_char_def unescape_def)
  next
    case 5
    then have "c = CHR 0x0A" by (intro of_char_eqI [where ?'a = nat]) simp
    then show ?thesis by (simp add: esc_char_def unescape_def)
  next
    case 6
    then have "c = CHR 0x0D" by (intro of_char_eqI [where ?'a = nat]) simp
    then show ?thesis by (simp add: esc_char_def unescape_def)
  next
    case 7
    then have "c = CHR 0x09" by (intro of_char_eqI [where ?'a = nat]) simp
    then show ?thesis by (simp add: esc_char_def unescape_def)
  next
    case 8
    then have e: "esc_char c = [BACKSLASH, CHR ''u'', CHR ''0'', CHR ''0'', hex_char (?n div 16), hex_char (?n mod 16)]"
      by (simp add: esc_char_def Let_def)
    show ?thesis
      unfolding e using hex4_low [OF 8(1)] by simp
  next
    case 9
    then have e: "esc_char c = [c]" by (simp add: esc_char_def)
    from 9 have "c \<noteq> DQUOTE" "c \<noteq> BACKSLASH" by auto
    with 9 show ?thesis unfolding e by simp
  qed
qed

lemma parse_string_quote_body: "parse_string (quote_body s @ r) = Some (s, r)"
  by (induction s) (simp_all add: parse_string_esc_char consing_def)

subsection \<open>Values: reading back what was written\<close>

lemma value_end_number_end: "value_end r \<Longrightarrow> number_end r"
  by (cases r) (auto simp: value_end_def number_end_def is_digit_def)

lemma value_end_simps [simp]:
  "value_end []" "value_end (CHR '','' # r)" "value_end (CHR '']'' # r)" "value_end (CHR ''}'' # r)"
  by (simp_all add: value_end_def)

lemma skip_ws_simps [simp]:
  "skip_ws [] = []"
  "\<not> is_ws c \<Longrightarrow> skip_ws (c # cs) = c # cs"
  by (simp_all add: skip_ws_def)

lemma not_ws_simps [simp]:
  "\<not> is_ws CHR '',''" "\<not> is_ws CHR '']''" "\<not> is_ws CHR ''}''" "\<not> is_ws CHR '':''"
  "\<not> is_ws DQUOTE" "\<not> is_ws CHR ''[''" "\<not> is_ws CHR ''{''"
  by (simp_all add: is_ws_def)

lemma dec_int_head: "\<exists>c cs. dec_int i = c # cs \<and> (is_digit c \<or> c = CHR ''-'')"
proof (cases "i < 0")
  case True
  then show ?thesis by (simp add: dec_int_def)
next
  case False
  obtain c cs where cs: "dec_nat (nat i) = c # cs"
    using dec_nat_nonempty [of "nat i"] by (cases "dec_nat (nat i)") auto
  then have "c \<in> set (dec_nat (nat i))" by simp
  then have "is_digit c" by (rule dec_nat_digits)
  with cs False show ?thesis by (simp add: dec_int_def)
qed

lemma json_text_head: "\<exists>c cs. json_text v = c # cs \<and> starts_value c"
proof (cases v)
  case (JNum i)
  obtain c cs where "dec_int i = c # cs" "is_digit c \<or> c = CHR ''-''"
    using dec_int_head by blast
  with JNum show ?thesis by (auto simp: starts_value_def is_ws_def is_digit_def)
qed (auto simp: starts_value_def is_ws_def quote_def)

lemma skip_ws_json_text [simp]: "skip_ws (json_text v @ r) = json_text v @ r"
proof -
  obtain c cs where "json_text v = c # cs" "starts_value c" using json_text_head by blast
  then show ?thesis by (simp add: starts_value_def)
qed

lemma join_Cons_Cons: "join ((c # s) # ts) = c # join (s # ts)"
  by (cases ts) simp_all

lemma join_json_texts_head:
  "xs \<noteq> [] \<Longrightarrow> \<exists>c cs. join (json_texts xs) = c # cs \<and> starts_value c"
proof (cases xs)
  case (Cons x ys)
  obtain c cs where "json_text x = c # cs" "starts_value c" using json_text_head by blast
  with Cons show ?thesis by (simp add: join_Cons_Cons)
qed simp

lemma json_member_texts_head:
  "json_member_texts kvs \<noteq> [] \<Longrightarrow> \<exists>s ts. json_member_texts kvs = (DQUOTE # s) # ts"
  by (induction kvs) (auto simp: quote_def)

lemma json_member_texts_empty: "json_member_texts kvs = [] \<longleftrightarrow> json_image_members kvs = []"
  by (induction kvs) auto

lemma parse_value_number:
  assumes "value_end r"
  shows "parse_value (Suc n) (dec_int i @ r) = Some (JNum i, r)"
proof -
  obtain c cs where c: "dec_int i = c # cs" "is_digit c \<or> c = CHR ''-''"
    using dec_int_head by blast
  then have ne: "c \<noteq> CHR ''n''" "c \<noteq> CHR ''t''" "c \<noteq> CHR ''f''" "c \<noteq> DQUOTE"
    "c \<noteq> CHR ''[''" "c \<noteq> CHR ''{''"
    by (auto simp: is_digit_def)
  have "parse_number ((c # cs) @ r) = Some (i, r)"
    using parse_number_dec_int [OF value_end_number_end [OF assms], of i] c by simp
  with ne show ?thesis by (simp add: c)
qed

lemma assign_fresh: "k \<notin> fst ` set ps \<Longrightarrow> assign k v ps = ps @ [(k, v)]"
  by (induction ps) auto

lemma spread_distinct:
  "distinct (map fst (acc @ kvs)) \<Longrightarrow> spread acc kvs = acc @ kvs"
proof (induction kvs arbitrary: acc)
  case Nil
  then show ?case by (simp add: spread_def)
next
  case (Cons p kvs)
  then have fresh: "fst p \<notin> fst ` set acc" by auto
  have "spread acc (p # kvs) = spread (assign (fst p) (snd p) acc) kvs"
    by (simp add: spread_def)
  also have "\<dots> = spread (acc @ [p]) kvs"
    using fresh by (simp add: assign_fresh)
  also have "\<dots> = (acc @ [p]) @ kvs"
    using Cons.prems by (intro Cons.IH) simp
  finally show ?case by simp
qed

lemma keys_json_image_members: "set (map fst (json_image_members kvs)) \<subseteq> set (map fst kvs)"
  by (induction kvs) auto

lemma distinct_json_image_members: "distinct (map fst kvs) \<Longrightarrow> distinct (map fst (json_image_members kvs))"
proof (induction kvs)
  case (Cons p kvs)
  then show ?case using keys_json_image_members [of kvs] by auto
qed simp

lemma roundtrip:
  "well_formed v \<Longrightarrow> length (json_text v) \<le> n \<Longrightarrow> value_end r
     \<Longrightarrow> parse_value n (json_text v @ r) = Some (json_image v, r)"
  "well_formed_list xs \<Longrightarrow> xs \<noteq> [] \<Longrightarrow> length (join (json_texts xs)) < n
     \<Longrightarrow> parse_elements n (join (json_texts xs) @ CHR '']'' # r) = Some (json_image_list xs, r)"
  "well_formed_members kvs \<Longrightarrow> json_member_texts kvs \<noteq> [] \<Longrightarrow> length (join (json_member_texts kvs)) < n
     \<Longrightarrow> parse_members n (join (json_member_texts kvs) @ CHR ''}'' # r) = Some (json_image_members kvs, r)"
proof (induction v and xs and kvs arbitrary: n r and n r and n r
    rule: json_text_json_texts_json_member_texts.induct)
  case 1
  then obtain m where "n = Suc m" by (cases n) auto
  then show ?case by simp
next
  case 2
  then obtain m where "n = Suc m" by (cases n) auto
  then show ?case by simp
next
  case (3 b)
  then obtain m where "n = Suc m" by (cases n) (auto split: if_splits)
  then show ?case by simp
next
  case (4 i)
  have "0 < length (dec_int i)" using dec_int_head [of i] by auto
  with 4 obtain m where "n = Suc m" by (cases n) auto
  with 4 show ?case by (simp add: parse_value_number del: parse_value.simps)
next
  case (5 s)
  then obtain m where "n = Suc m" by (cases n) (auto simp: quote_def)
  then show ?case by (simp add: quote_def parse_string_quote_body)
next
  case (6 xs)
  then obtain m where n: "n = Suc m" by (cases n) auto
  show ?case
  proof (cases "xs = []")
    case True
    with n show ?thesis by simp
  next
    case False
    obtain c cs where c: "join (json_texts xs) = c # cs" "starts_value c"
      using join_json_texts_head [OF False] by blast
    have "parse_elements m (join (json_texts xs) @ CHR '']'' # r) = Some (json_image_list xs, r)"
      using 6 False n by (intro "6.IH") auto
    then show ?thesis
      using c n by (simp add: starts_value_def)
  qed
next
  case (7 kvs)
  then obtain m where n: "n = Suc m" by (cases n) auto
  from 7 have d: "distinct (map fst (json_image_members kvs))"
    by (simp add: distinct_json_image_members)
  show ?case
  proof (cases "json_member_texts kvs = []")
    case True
    then have "json_image_members kvs = []" by (simp add: json_member_texts_empty)
    with True n show ?thesis by simp
  next
    case False
    obtain s ts where c: "json_member_texts kvs = (DQUOTE # s) # ts"
      using json_member_texts_head [OF False] by blast
    have "parse_members m (join (json_member_texts kvs) @ CHR ''}'' # r) = Some (json_image_members kvs, r)"
      using 7 False n by (intro "7.IH") auto
    moreover have "spread [] (json_image_members kvs) = json_image_members kvs"
      using d spread_distinct [of "[]"] by simp
    ultimately show ?thesis
      using c n by (simp add: join_Cons_Cons)
  qed
next
  case 8
  then show ?case by simp
next
  case (9 x xs)
  then obtain m where n: "n = Suc m" by (cases n) auto
  show ?case
  proof (cases xs)
    case Nil
    with 9 n have "parse_value m (json_text x @ CHR '']'' # r) = Some (json_image x, CHR '']'' # r)"
      by (intro "9.IH"(1)) auto
    with Nil n show ?thesis by simp
  next
    case (Cons y ys)
    with 9 n have 1: "parse_value m (json_text x @ CHR '','' # join (json_texts xs) @ CHR '']'' # r)
        = Some (json_image x, CHR '','' # join (json_texts xs) @ CHR '']'' # r)"
      by (intro "9.IH"(1)) auto
    obtain c cs where c: "join (json_texts xs) = c # cs" "starts_value c"
      using join_json_texts_head [of xs] Cons by blast
    have 2: "parse_elements m (join (json_texts xs) @ CHR '']'' # r) = Some (json_image_list xs, r)"
      using 9 n Cons by (intro "9.IH"(2)) auto
    have "skip_ws (join (json_texts xs) @ CHR '']'' # r) = join (json_texts xs) @ CHR '']'' # r"
      using c by (simp add: starts_value_def)
    with 1 2 Cons n show ?thesis by simp
  qed
next
  case 10
  then show ?case by simp
next
  case (11 p kvs)
  show ?case
  proof (cases "snd p = JUndefined")
    case True
    with 11 show ?thesis by simp
  next
    case False
    from 11 obtain m where n: "n = Suc m" by (cases n) auto
    let ?k = "fst p" and ?v = "snd p"
    show ?thesis
    proof (cases "json_member_texts kvs = []")
      case True
      then have e: "json_image_members kvs = []" by (simp add: json_member_texts_empty)
      have "parse_value m (json_text ?v @ CHR ''}'' # r) = Some (json_image ?v, CHR ''}'' # r)"
        using 11 False True n by (intro "11.IH"(2)) auto
      with False True e n show ?thesis
        by (simp add: quote_def parse_string_quote_body)
    next
      case ne: False
      obtain s ts where c: "json_member_texts kvs = (DQUOTE # s) # ts"
        using json_member_texts_head [OF ne] by blast
      let ?rest = "join (json_member_texts kvs) @ CHR ''}'' # r"
      have j: "join (json_member_texts (p # kvs)) = quote ?k @ CHR '':'' # json_text ?v @ CHR '','' # join (json_member_texts kvs)"
        using False c by simp
      have 1: "parse_value m (json_text ?v @ CHR '','' # ?rest) = Some (json_image ?v, CHR '','' # ?rest)"
        using 11 False n j by (intro "11.IH"(2)) auto
      have 2: "parse_members m ?rest = Some (json_image_members kvs, r)"
        using 11 False ne n j by (intro "11.IH"(3)) auto
      have "skip_ws ?rest = ?rest" using c by (simp add: join_Cons_Cons)
      with 1 2 False n show ?thesis
        unfolding j by (simp add: quote_def parse_string_quote_body)
    qed
  qed
qed

lemma JSON_parse_json_text:
  assumes "well_formed v"
  shows "JSON_parse (json_text v) = Inr (json_image v)"
proof -
  have "parse_value (length (json_text v)) (json_text v @ []) = Some (json_image v, [])"
    using assms by (intro roundtrip(1)) auto
  moreover have "skip_ws (json_text v) = json_text v" using skip_ws_json_text [of v "[]"] by simp
  ultimately show ?thesis by (simp add: JSON_parse_def)
qed

subsection \<open>What the parser returns is a JSON value\<close>

lemma is_json_fixed:
  "is_json v \<Longrightarrow> well_formed v \<and> json_image v = v"
  "is_json_list xs \<Longrightarrow> well_formed_list xs \<and> json_image_list xs = xs"
  "is_json_members kvs \<Longrightarrow> well_formed_members kvs \<and> json_image_members kvs = kvs"
  by (induction v and xs and kvs rule: is_json_is_json_list_is_json_members.induct) auto

lemma is_json_members_assign:
  "is_json v \<Longrightarrow> is_json_members ps \<Longrightarrow> is_json_members (assign k v ps)"
  by (induction ps) auto

lemma keys_assign: "set (map fst (assign k v ps)) = insert k (set (map fst ps))"
  by (induction ps) auto

lemma distinct_assign: "distinct (map fst ps) \<Longrightarrow> distinct (map fst (assign k v ps))"
  by (induction ps) (auto simp: keys_assign simp flip: set_map)

lemma is_json_members_spread:
  "is_json_members acc \<Longrightarrow> is_json_members kvs \<Longrightarrow> is_json_members (spread acc kvs)"
  unfolding spread_def
  by (induction kvs arbitrary: acc) (auto simp: is_json_members_assign)

lemma distinct_spread: "distinct (map fst acc) \<Longrightarrow> distinct (map fst (spread acc kvs))"
  unfolding spread_def
  by (induction kvs arbitrary: acc) (auto simp: distinct_assign)

lemma parse_is_json_fuel:
  "(\<forall>s v r. parse_value n s = Some (v, r) \<longrightarrow> is_json v)
   \<and> (\<forall>s vs r. parse_elements n s = Some (vs, r) \<longrightarrow> is_json_list vs)
   \<and> (\<forall>s kvs r. parse_members n s = Some (kvs, r) \<longrightarrow> is_json_members kvs)"
proof (induction n)
  case 0
  show ?case by simp
next
  case (Suc n)
  then have v: "\<And>s v r. parse_value n s = Some (v, r) \<Longrightarrow> is_json v"
    and e: "\<And>s vs r. parse_elements n s = Some (vs, r) \<Longrightarrow> is_json_list vs"
    and m: "\<And>s kvs r. parse_members n s = Some (kvs, r) \<Longrightarrow> is_json_members kvs"
    by blast+
  have 1: "is_json v" if "parse_value (Suc n) s = Some (v, r)" for s v r
    using that
    by (auto split: list.splits if_splits option.splits prod.splits
        dest: e m simp: is_json_members_spread distinct_spread)
  have 2: "is_json_list vs" if "parse_elements (Suc n) s = Some (vs, r)" for s vs r
    using that
    by (auto split: list.splits if_splits option.splits prod.splits dest: v e)
  have 3: "is_json_members kvs" if "parse_members (Suc n) s = Some (kvs, r)" for s kvs r
    using that
    by (auto split: list.splits if_splits option.splits prod.splits dest: v m)
  from 1 2 3 show ?case by blast
qed

lemma parse_value_is_json: "parse_value n s = Some (v, r) \<Longrightarrow> is_json v"
  using parse_is_json_fuel by blast

lemma JSON_parse_Nil: "JSON_parse [] = Inl SyntaxError"
  by (simp add: JSON_parse_def)

lemma JSON_parse_is_json: "JSON_parse s = Inr v \<Longrightarrow> is_json v"
  by (auto simp: JSON_parse_def split: option.splits if_splits dest: parse_value_is_json)

lemma JSON_parse_json: "is_json v \<Longrightarrow> JSON_parse (json_text v) = Inr v"
  using JSON_parse_json_text [of v] is_json_fixed(1) [of v] by simp

lemmas json_eval =
  JSON_parse_def skip_ws_def is_ws_def parse_number_def parse_nat_def is_digit_def
  digits_val_def digit_val_def frac_or_exp_def spread_def unescape_def consing_def
  hex4_def hex_val_def

lemmas json_text_eval =
  JSON_stringify_def quote_def esc_char_def dec_int_def dec_nat.simps digit_char_def hex_char_def

section \<open>The fallback store\<close>

lemma map_of_assign: "map_of (assign k v ps) = (map_of ps)(k \<mapsto> v)"
  by (induction ps) (auto simp: fun_eq_iff)




text \<open>
  C7. \<^verbatim>\<open>getMockData\<close> returns the value parsed from the text stored under the key. When
  nothing is stored, when the stored text does not parse, and when reading the storage
  itself throws, it returns the caller's default: whatever the \<^verbatim>\<open>try\<close> block throws is
  caught, so the result is always a value.
\<close>

theorem getMockData_contract:
  "(getItem ls key = Inr (Some s) \<and> JSON_parse s = Inr v \<longrightarrow> getMockData ls key d = v)
   \<and> (getItem ls key = Inr None \<longrightarrow> getMockData ls key d = d)
   \<and> (getItem ls key = Inr (Some s) \<and> JSON_parse s = Inl e \<longrightarrow> getMockData ls key d = d)
   \<and> (getItem ls key = Inl e \<longrightarrow> getMockData ls key d = d)
   \<and> (getMockData_try ls key = Inl e \<longrightarrow> getMockData ls key d = d)"
proof (intro conjI impI)
  assume a: "getItem ls key = Inr (Some s) \<and> JSON_parse s = Inr v"
  then have "s \<noteq> []" using JSON_parse_Nil by auto
  with a show "getMockData ls key d = v"
    by (simp add: getMockData_def getMockData_try_def)
next
  assume "getItem ls key = Inr None"
  then show "getMockData ls key d = d"
    by (simp add: getMockData_def getMockData_try_def)
next
  assume "getItem ls key = Inr (Some s) \<and> JSON_parse s = Inl e"
  then show "getMockData ls key d = d"
    by (simp add: getMockData_def getMockData_try_def)
next
  assume "getItem ls key = Inl e"
  then show "getMockData ls key d = d"
    by (simp add: getMockData_def getMockData_try_def)
next
  assume "getMockData_try ls key = Inl e"
  then show "getMockData ls key d = d"
    by (simp add: getMockData_def)
qed

text \<open>
  C7 at a storage that holds a collection under \<^verbatim>\<open>rooms\<close> and broken text under
  \<^verbatim>\<open>users\<close>, and at a storage that cannot be read.
\<close>

theorem getMockData_contract_witness:
  "getMockData (roomy [(''rooms'', ''[{\"id\":7,\"name\":\"Melati\"}]''), (''users'', ''[{\"id\":'')])
      ''rooms'' (JArr [])
     = JArr [JObj [(''id'', JNum 7), (''name'', JStr ''Melati'')]]
   \<and> getMockData (roomy [(''rooms'', ''[{\"id\":7,\"name\":\"Melati\"}]''), (''users'', ''[{\"id\":'')])
      ''doctors'' (JArr [JNum 1]) = JArr [JNum 1]
   \<and> getMockData (roomy [(''rooms'', ''[{\"id\":7,\"name\":\"Melati\"}]''), (''users'', ''[{\"id\":'')])
      ''users'' (JArr [JNum 1]) = JArr [JNum 1]
   \<and> getMockData blocked ''rooms'' (JArr [JNum 1]) = JArr [JNum 1]"
proof -
  let ?ls = "roomy [(''rooms'', ''[{\"id\":7,\"name\":\"Melati\"}]''), (''users'', ''[{\"id\":'')]"
  let ?v = "JArr [JObj [(''id'', JNum 7), (''name'', JStr ''Melati'')]]"
  have p: "JSON_parse ''[{\"id\":7,\"name\":\"Melati\"}]'' = Inr ?v"
    by (simp add: json_eval)
  have q: "JSON_parse ''[{\"id\":'' = Inl SyntaxError"
    by (simp add: json_eval)
  have 1: "getMockData ?ls ''rooms'' (JArr []) = ?v"
    using getMockData_contract [of ?ls "''rooms''" "''[{\"id\":7,\"name\":\"Melati\"}]''" ?v "JArr []"] p
    by (simp add: getItem_def roomy_def)
  have 2: "getMockData ?ls ''doctors'' (JArr [JNum 1]) = JArr [JNum 1]"
    using getMockData_contract [of ?ls "''doctors''" _ _ "JArr [JNum 1]"]
    by (simp add: getItem_def roomy_def)
  have 3: "getMockData ?ls ''users'' (JArr [JNum 1]) = JArr [JNum 1]"
    using getMockData_contract [of ?ls "''users''" "''[{\"id\":''" _ "JArr [JNum 1]" SyntaxError] q
    by (simp add: getItem_def roomy_def)
  have 4: "getMockData blocked ''rooms'' (JArr [JNum 1]) = JArr [JNum 1]"
    using getMockData_contract [of blocked "''rooms''" _ _ "JArr [JNum 1]" SecurityError]
    by (simp add: getItem_def blocked_def)
  from 1 2 3 4 show ?thesis by simp
qed




section \<open>The wrapper's contract\<close>

lemma trySupabase_disabled: "trySupabase False operation fallback w = fallback w"
  by (simp add: trySupabase_def)

lemma trySupabase_success:
  assumes "operation w = (Inr r, w')" and "data r = Some d" and "\<not> truthy (error r)"
  shows "trySupabase True operation fallback w = (Inr d, w')"
  using assms by (simp add: trySupabase_def)

lemma trySupabase_failure:
  assumes "\<not> (\<exists>r d. fst (operation w) = Inr r \<and> data r = Some d \<and> \<not> truthy (error r))"
  shows "trySupabase True operation fallback w = fallback (snd (operation w))"
proof (cases "operation w")
  case (Pair res w')
  show ?thesis
  proof (cases res)
    case (Inl e)
    with Pair show ?thesis by (simp add: trySupabase_def)
  next
    case (Inr r)
    with Pair assms show ?thesis
      by (cases "data r") (auto simp: trySupabase_def)
  qed
qed

text \<open>
  C1, as the code has it. The wrapper returns the remote data exactly when the flag is set,
  the operation returns, its \<^verbatim>\<open>error\<close> field is falsy (\<^verbatim>\<open>null\<close>, \<^verbatim>\<open>undefined\<close>, \<^verbatim>\<open>false\<close>,
  \<^verbatim>\<open>0\<close> or the empty string: the test is \<^verbatim>\<open>!error\<close>) and its data is not \<^verbatim>\<open>null\<close>; then
  the fallback plays no part in the result. In every other case the result is the
  fallback's, run on the world the operation left. With the flag off the result is the
  fallback's on the untouched world, whatever the operation is: it is never invoked.
  The flag is off when the URL or the key is missing or empty, or the URL does not start
  with \<^verbatim>\<open>http\<close>.
\<close>

theorem trySupabase_contract:
  "(enabled \<and> operation w = (Inr r, w') \<and> data r = Some d \<and> \<not> truthy (error r)
      \<longrightarrow> trySupabase enabled operation fallback w = (Inr d, w'))
   \<and> (enabled \<and> \<not> (\<exists>r d. fst (operation w) = Inr r \<and> data r = Some d \<and> \<not> truthy (error r))
      \<longrightarrow> trySupabase enabled operation fallback w = fallback (snd (operation w)))
   \<and> (\<not> enabled \<longrightarrow> trySupabase enabled operation fallback w = fallback w)
   \<and> (supabaseUrl e = [] \<or> supabaseKey e = [] \<or> \<not> prefix ''http'' (supabaseUrl e)
      \<longrightarrow> trySupabase (isSupabaseEnabled e) operation fallback w = fallback w)"
proof (intro conjI impI)
  assume "enabled \<and> operation w = (Inr r, w') \<and> data r = Some d \<and> \<not> truthy (error r)"
  then show "trySupabase enabled operation fallback w = (Inr d, w')"
    using trySupabase_success [of operation w r w' d fallback] by simp
next
  assume "enabled \<and> \<not> (\<exists>r d. fst (operation w) = Inr r \<and> data r = Some d \<and> \<not> truthy (error r))"
  then show "trySupabase enabled operation fallback w = fallback (snd (operation w))"
    using trySupabase_failure [of operation w fallback] by simp
next
  assume "\<not> enabled"
  then show "trySupabase enabled operation fallback w = fallback w"
    by (simp add: trySupabase_disabled)
next
  assume "supabaseUrl e = [] \<or> supabaseKey e = [] \<or> \<not> prefix ''http'' (supabaseUrl e)"
  then have "\<not> isSupabaseEnabled e"
    by (auto simp: isSupabaseEnabled_def isValidConfig_def)
  then show "trySupabase (isSupabaseEnabled e) operation fallback w = fallback w"
    by (simp add: trySupabase_disabled)
qed

text \<open>
  The contract at concrete calls: a clean answer is returned and the fallback has not run;
  a thrown error, a truthy error and \<^verbatim>\<open>null\<close> data each run the fallback once after the
  one remote attempt; with no configuration the remote counter stays at 0.
\<close>

theorem trySupabase_contract_witness:
  "trySupabase True (remote_answers \<lparr>data = Some 7, error = JNull\<rparr>) (local_answers 3) (0, 0)
     = (Inr 7, (1, 0))
   \<and> trySupabase True remote_throws (local_answers 3) (0, 0) = (Inr 3, (1, 1))
   \<and> trySupabase True (remote_answers \<lparr>data = Some 7, error = JObj [(''message'', JStr ''denied'')]\<rparr>)
        (local_answers 3) (0, 0) = (Inr 3, (1, 1))
   \<and> trySupabase True (remote_answers \<lparr>data = None, error = JNull\<rparr>) (local_answers 3) (0, 0)
     = (Inr 3, (1, 1))
   \<and> trySupabase False (remote_answers \<lparr>data = Some 7, error = JNull\<rparr>) (local_answers 3) (0, 0)
     = (Inr 3, (0, 1))
   \<and> trySupabase (isSupabaseEnabled \<lparr>VITE_SUPABASE_URL = None, VITE_SUPABASE_ANON_KEY = Some ''k''\<rparr>)
        (remote_answers \<lparr>data = Some 7, error = JNull\<rparr>) (local_answers 3) (0, 0)
     = (Inr 3, (0, 1))"
proof -
  let ?ok = "\<lparr>data = Some (7::int), error = JNull\<rparr>"
  let ?denied = "\<lparr>data = Some (7::int), error = JObj [(''message'', JStr ''denied'')]\<rparr>"
  let ?null = "\<lparr>data = (None::int option), error = JNull\<rparr>"
  let ?e = "\<lparr>VITE_SUPABASE_URL = None, VITE_SUPABASE_ANON_KEY = Some ''k''\<rparr>"
  note c = trySupabase_contract [where fallback = "local_answers 3" and w = "(0, 0)" and e = ?e]
  have 1: "trySupabase True (remote_answers ?ok) (local_answers 3) (0, 0) = (Inr 7, (1, 0))"
    using c [of True "remote_answers ?ok" ?ok "(1, 0)" 7]
    by (simp add: remote_answers_def)
  have 2: "trySupabase True remote_throws (local_answers 3) (0, 0) = (Inr 3, (1, 1))"
    using c [of True remote_throws ?ok "(1, 0)" 7]
    by (simp add: remote_throws_def local_answers_def)
  have 3: "trySupabase True (remote_answers ?denied) (local_answers 3) (0, 0) = (Inr 3, (1, 1))"
    using c [of True "remote_answers ?denied" ?ok "(1, 0)" 7]
    by (simp add: remote_answers_def local_answers_def)
  have 4: "trySupabase True (remote_answers ?null) (local_answers 3) (0, 0) = (Inr 3, (1, 1))"
    using c [of True "remote_answers ?null" ?ok "(1, 0)" 7]
    by (simp add: remote_answers_def local_answers_def)
  have 5: "trySupabase False (remote_answers ?ok) (local_answers 3) (0, 0) = (Inr 3, (0, 1))"
    using c [of False "remote_answers ?ok" ?ok "(1, 0)" 7]
    by (simp add: local_answers_def)
  have 6: "trySupabase (isSupabaseEnabled ?e) (remote_answers ?ok) (local_answers 3) (0, 0)
             = (Inr 3, (0, 1))"
    using c [of True "remote_answers ?ok" ?ok "(1, 0)" 7]
    by (simp add: local_answers_def supabaseUrl_def)
  from 1 2 3 4 5 6 show ?thesis by simp
qed

text \<open>
  The claim as written fails where it says "null/absent": an \<^verbatim>\<open>error\<close> field that is the
  empty string is neither, and still the remote data is returned and the fallback does
  not run.
\<close>

theorem trySupabase_error_counterexample:
  "error \<lparr>data = Some (7::int), error = JStr ''''\<rparr> \<noteq> JNull
   \<and> error \<lparr>data = Some (7::int), error = JStr ''''\<rparr> \<noteq> JUndefined
   \<and> trySupabase True (remote_answers \<lparr>data = Some 7, error = JStr ''''\<rparr>) (local_answers 3) (0, 0)
       = (Inr 7, (1, 0))
   \<and> trySupabase True (remote_answers \<lparr>data = Some 7, error = JStr ''''\<rparr>) (local_answers 3) (0, 0)
       \<noteq> local_answers 3 (1, 0)"
  by (simp add: trySupabase_def remote_answers_def local_answers_def)

section \<open>Facts about records and arrays\<close>

lemma member_record: "is_record x \<Longrightarrow> member x k = Inr (field x k)"
  by (cases x) (simp_all add: is_record_def member_def)

lemma field_is_record: "is_record x \<Longrightarrow> field_is k v x = Inr (field x k = v)"
  by (simp add: field_is_def member_record)


lemma filter_js_field_is:
  "list_all is_record xs \<Longrightarrow> filter_js (field_is k v) xs = Inr (filter (\<lambda>x. field x k = v) xs)"
  by (induction xs) (simp_all add: field_is_record)




lemma get_assign: "get (assign k v ps) k' = (if k' = k then v else get ps k')"
  by (simp add: get_def map_of_assign)

lemma get_spread_other: "k \<notin> fst ` set s \<Longrightarrow> get (spread t s) k = get t k"
  unfolding spread_def
  by (induction s arbitrary: t) (auto simp: get_assign)




lemma getMockData_is_json: "is_json d \<Longrightarrow> is_json (getMockData ls key d)"
  by (auto simp: getMockData_def getMockData_try_def split: sum.splits option.splits if_splits
      dest: JSON_parse_is_json)


lemma get_Cons: "get ((k, v) # ps) k' = (if k' = k then v else get ps k')"
  by (simp add: get_def)

lemma get_Nil: "get [] k = JUndefined"
  by (simp add: get_def)

lemma get_absent: "k \<notin> fst ` set ps \<Longrightarrow> get ps k = JUndefined"
  by (simp add: get_def map_of_eq_None_iff [THEN iffD2])

lemma spread_Cons: "spread t (p # s) = spread (assign (fst p) (snd p) t) s"
  by (simp add: spread_def)

lemma spread_Nil: "spread t [] = t"
  by (simp add: spread_def)

lemma get_spread_distinct:
  "distinct (map fst s) \<Longrightarrow> get (spread t s) k = (if k \<in> fst ` set s then get s k else get t k)"
proof (induction s arbitrary: t)
  case Nil
  then show ?case by (simp add: spread_Nil)
next
  case (Cons p s)
  obtain a b where p: "p = (a, b)" by (cases p)
  with Cons show ?case
    by (auto simp: spread_Cons get_assign get_Cons)
qed



section \<open>The examples, evaluated\<close>

lemmas store_eval =
  getMockData_def getMockData_try_def getItem_def setMockData_def setMockData_try_def setItem_def
  usage_def roomy_def full_def blocked_def collection_def default_of_def

lemma desk_registrations:
  "collection ''registrations'' desk =
     JArr [JObj [(''id'', JNum 11), (''nik'', JStr ''3502010101900001''), (''status'', JStr ''Pending''),
                 (''cost'', JNum 0)],
           JObj [(''id'', JNum 12), (''nik'', JStr ''3502010101900002'')]]"
  by (simp add: desk_def store_eval json_eval)




section \<open>Absent identities\<close>


lemma is_json_default_of: "is_json (JArr (MOCK_DOCTORS st)) \<Longrightarrow> is_json (default_of key st)"
  by (simp add: default_of_def)

lemma default_of_storage [simp]: "default_of key (st\<lparr>storage := s\<rparr>) = default_of key st"
  by (simp add: default_of_def)










section \<open>Login in fallback mode\<close>

lemma loginPatient_falls_back:
  assumes "\<not> en \<or> remote_failed (sb (Select ''registrations'' ''*'' (Some (''nik'', JStr nik)) None) (remote w))"
  shows "\<exists>r. loginPatient en sb nik w = on_local (loginPatient_fallback nik) (w\<lparr>remote := r\<rparr>)"
proof (cases en)
  case False
  then have "loginPatient en sb nik w = on_local (loginPatient_fallback nik) (w\<lparr>remote := remote w\<rparr>)"
    by (simp add: loginPatient_def trySupabase_def)
  then show ?thesis by blast
next
  case True
  let ?q = "sb (Select ''registrations'' ''*'' (Some (''nik'', JStr nik)) None) (remote w)"
  obtain res r' where q: "?q = (res, r')" by (cases ?q)
  with True assms have "case res of Inl e \<Rightarrow> True | Inr a \<Rightarrow> truthy (failure a)"
    by (simp add: remote_failed_def)
  then have "loginPatient en sb nik w = on_local (loginPatient_fallback nik) (w\<lparr>remote := r'\<rparr>)"
    using True q
    by (cases res) (simp_all add: loginPatient_def loginPatient_operation_def trySupabase_def on_remote_def
        awaiting_def)
  then show ?thesis by blast
qed

lemma loginPatient_fallback_result:
  assumes "collection ''registrations'' st = JArr regs" and "list_all is_record regs"
  shows "loginPatient_fallback nik st =
    ((if filter (\<lambda>r. field r ''nik'' = JStr nik) regs \<noteq> []
      then Inr (JObj [(''found'', JBool True), (''data'', JArr (filter (\<lambda>r. field r ''nik'' = JStr nik) regs))])
      else if 10 \<le> length nik then Inr (JObj [(''found'', JBool True), (''data'', JArr [])])
      else Inl (Error ''NIK tidak ditemukan'')), st)"
  using assms
  by (simp add: loginPatient_fallback_def collection_def default_of_def array_filter_def as_array_def
      filter_js_field_is)

text \<open>
  C3. In fallback mode (the flag is off, or the remote query threw or answered with an
  error) and with an array of records stored as registrations, \<^verbatim>\<open>loginPatient\<close> answers
  \<^verbatim>\<open>found: true\<close> with exactly the records whose \<^verbatim>\<open>nik\<close> is the given one when there are
  any, \<^verbatim>\<open>found: true\<close> with no records when there are none and the identifier has at
  least 10 characters, and rejects with the error \<^verbatim>\<open>NIK tidak ditemukan\<close> otherwise. The
  fallback side of the world is left as it was.
\<close>

theorem loginPatient_fallback_mode:
  assumes "\<not> en \<or> remote_failed (sb (Select ''registrations'' ''*'' (Some (''nik'', JStr nik)) None) (remote w))"
    and "collection ''registrations'' (local w) = JArr regs" and "list_all is_record regs"
  shows "fst (loginPatient en sb nik w) =
      (if filter (\<lambda>r. field r ''nik'' = JStr nik) regs \<noteq> []
       then Inr (JObj [(''found'', JBool True), (''data'', JArr (filter (\<lambda>r. field r ''nik'' = JStr nik) regs))])
       else if 10 \<le> length nik then Inr (JObj [(''found'', JBool True), (''data'', JArr [])])
       else Inl (Error ''NIK tidak ditemukan''))
    \<and> local (snd (loginPatient en sb nik w)) = local w"
proof -
  obtain r where "loginPatient en sb nik w = on_local (loginPatient_fallback nik) (w\<lparr>remote := r\<rparr>)"
    using loginPatient_falls_back [of en sb nik w] assms(1) by blast
  then show ?thesis
    using loginPatient_fallback_result [OF assms(2,3), of nik]
    by (simp add: on_local_def)
qed

text \<open>
  C3 at the desk: a known identifier with the flag off, and an unknown long and an
  unknown short one with a remote that cannot be reached.
\<close>

theorem loginPatient_fallback_mode_witness:
  "fst (loginPatient False offline ''3502010101900002'' counter)
     = Inr (JObj [(''found'', JBool True),
                  (''data'', JArr [JObj [(''id'', JNum 12), (''nik'', JStr ''3502010101900002'')]])])
   \<and> fst (loginPatient True offline ''3502010101900009'' counter)
     = Inr (JObj [(''found'', JBool True), (''data'', JArr [])])
   \<and> fst (loginPatient True offline ''350201'' counter) = Inl (Error ''NIK tidak ditemukan'')
   \<and> local (snd (loginPatient True offline ''350201'' counter)) = local counter"
proof -
  have c: "collection ''registrations'' (local counter) =
     JArr [JObj [(''id'', JNum 11), (''nik'', JStr ''3502010101900001''), (''status'', JStr ''Pending''),
                 (''cost'', JNum 0)],
           JObj [(''id'', JNum 12), (''nik'', JStr ''3502010101900002'')]]"
    using desk_registrations by (simp add: counter_def)
  have r: "list_all is_record
     [JObj [(''id'', JNum 11), (''nik'', JStr ''3502010101900001''), (''status'', JStr ''Pending''),
            (''cost'', JNum 0)],
      JObj [(''id'', JNum 12), (''nik'', JStr ''3502010101900002'')]]"
    by (simp add: is_record_def)
  have f: "remote_failed (offline q (remote counter))" for q
    by (simp add: remote_failed_def offline_def)
  have 1: "\<not> False \<or> remote_failed (offline
      (Select ''registrations'' ''*'' (Some (''nik'', JStr ''3502010101900002'')) None) (remote counter))"
    by simp
  have 2: "\<not> True \<or> remote_failed (offline
      (Select ''registrations'' ''*'' (Some (''nik'', JStr nik)) None) (remote counter))" for nik
    using f by simp
  note t = loginPatient_fallback_mode [where w = counter and sb = offline, OF _ c r]
  from t [of False "''3502010101900002''"] t [of True "''3502010101900009''"] t [of True "''350201''"] f
  show ?thesis
    by (simp add: field_def get_def)
qed

section \<open>One path per call\<close>

lemma trySupabase_one_path:
  assumes f_def: "f = trySupabase en (on_remote p) (on_local q)"
  shows "(\<not> en \<longrightarrow> remote (snd (f w)) = remote w \<and> (fst (f w), local (snd (f w))) = q (local w))
    \<and> (en \<and> succeeded (p (remote w)) \<longrightarrow>
         local (snd (f w)) = local w \<and> remote (snd (f w)) = snd (p (remote w))
         \<and> (\<exists>r. fst (p (remote w)) = Inr r \<and> map_option Inr (data r) = Some (fst (f w))))
    \<and> (en \<and> \<not> succeeded (p (remote w)) \<longrightarrow>
         remote (snd (f w)) = snd (p (remote w)) \<and> (fst (f w), local (snd (f w))) = q (local w))"
proof -
  obtain res r' where p: "p (remote w) = (res, r')" by (cases "p (remote w)")
  obtain out l' where q: "q (local w) = (out, l')" by (cases "q (local w)")
  show ?thesis
  proof (cases res)
    case (Inl e)
    with p q show ?thesis
      by (simp add: f_def trySupabase_def on_remote_def on_local_def succeeded_def)
  next
    case (Inr r)
    with p q show ?thesis
      by (cases "data r")
        (simp_all add: f_def trySupabase_def on_remote_def on_local_def succeeded_def)
  qed
qed

lemma api_wrapper:
  "api en sb req = trySupabase en (on_remote (operation_of sb req)) (on_local (fallback_of req))"
  by (cases req)
    (simp_all add: checkNik_def getDoctors_def loginPatient_def registerPatient_def sendMessage_def
      getRegistrations_def updateRegistration_def getMessages_def updateMessage_def
      addDoctor_def updateDoctor_def deleteDoctor_def getUsers_def addUser_def updateUser_def
      deleteUser_def getBPJS_def addBPJS_def updateBPJS_def deleteBPJS_def getFacilities_def
      addFacility_def updateFacility_def deleteFacility_def getRooms_def addRoom_def
      updateRoom_def deleteRoom_def getBanks_def addBank_def updateBank_def deleteBank_def
      Let_def)

text \<open>
  C8, as the code has it. Every operation of \<^verbatim>\<open>api\<close> is the wrapper applied to a closure
  on the remote store and a closure on the fallback store, and every call takes one path.
  With the flag off the remote store is not touched and the call is the fallback's. When
  the remote operation succeeds the fallback store is not touched and its data is
  returned. When it fails the call is the fallback's, and the remote store is what the
  failed operation left. Neither closure sees the other store.
\<close>

theorem api_one_path:
  "(\<not> en \<longrightarrow>
      remote (snd (api en sb req w)) = remote w
      \<and> (fst (api en sb req w), local (snd (api en sb req w))) = fallback_of req (local w))
   \<and> (en \<and> succeeded (operation_of sb req (remote w)) \<longrightarrow>
      local (snd (api en sb req w)) = local w
      \<and> remote (snd (api en sb req w)) = snd (operation_of sb req (remote w))
      \<and> (\<exists>r. fst (operation_of sb req (remote w)) = Inr r
            \<and> map_option Inr (data r) = Some (fst (api en sb req w))))
   \<and> (en \<and> \<not> succeeded (operation_of sb req (remote w)) \<longrightarrow>
      remote (snd (api en sb req w)) = snd (operation_of sb req (remote w))
      \<and> (fst (api en sb req w), local (snd (api en sb req w))) = fallback_of req (local w))"
  using trySupabase_one_path [OF api_wrapper, of en sb req w] .

lemma succeeded_healthy_addUser:
  "succeeded (operation_of healthy (AddUser newcomer 1714550400000) [])"
  by (simp add: succeeded_def addUser_operation_def awaiting_def healthy_def)

lemma failed_lossy_addUser:
  "\<not> succeeded (operation_of lossy (AddUser newcomer 1714550400000) [])"
  by (simp add: succeeded_def addUser_operation_def awaiting_def lossy_def)

lemma fresh_addUser:
  "fallback_of (AddUser newcomer 1714550400000) (local fresh)
     = (Inr (JBool True),
        \<lparr>storage = roomy [(''users'', ''[{\"id\":1714550400000,\"name\":\"Budi\"}]'')],
         MOCK_DOCTORS = initial_MOCK_DOCTORS\<rparr>)"
  by (simp add: fresh_def addUser_fallback_def newcomer_def array_push_def as_array_def spread_def
      store_eval json_text_eval char_of_eq_iff)

text \<open>
  C8 for one insertion into an empty world: flag off, a remote that answers, and a remote
  that loses its answer.
\<close>

theorem api_one_path_witness:
  "api False healthy (AddUser newcomer 1714550400000) fresh
     = (Inr (JBool True),
        \<lparr>remote = [],
         local = \<lparr>storage = roomy [(''users'', ''[{\"id\":1714550400000,\"name\":\"Budi\"}]'')],
                   MOCK_DOCTORS = initial_MOCK_DOCTORS\<rparr>\<rparr>)
   \<and> api True healthy (AddUser newcomer 1714550400000) fresh
     = (Inr (JBool True),
        \<lparr>remote = [Insert ''users'' [JObj newcomer] False], local = local fresh\<rparr>)
   \<and> api True lossy (AddUser newcomer 1714550400000) fresh
     = (Inr (JBool True),
        \<lparr>remote = [Insert ''users'' [JObj newcomer] False],
         local = \<lparr>storage = roomy [(''users'', ''[{\"id\":1714550400000,\"name\":\"Budi\"}]'')],
                   MOCK_DOCTORS = initial_MOCK_DOCTORS\<rparr>\<rparr>)"
proof -
  let ?req = "AddUser newcomer 1714550400000"
  have r0: "remote fresh = []" by (simp add: fresh_def)
  have h: "operation_of healthy ?req [] =
      (Inr \<lparr>data = Some (JBool True), error = JNull\<rparr>, [Insert ''users'' [JObj newcomer] False])"
    by (simp add: addUser_operation_def awaiting_def healthy_def)
  have l: "snd (operation_of lossy ?req []) = [Insert ''users'' [JObj newcomer] False]"
    by (simp add: addUser_operation_def awaiting_def lossy_def)
  have eq: "w = \<lparr>remote = remote w, local = local w\<rparr>" for w :: "sb_query list world"
    by simp
  have 1: "api False healthy ?req fresh = (Inr (JBool True),
        \<lparr>remote = [],
         local = \<lparr>storage = roomy [(''users'', ''[{\"id\":1714550400000,\"name\":\"Budi\"}]'')],
                   MOCK_DOCTORS = initial_MOCK_DOCTORS\<rparr>\<rparr>)"
    using api_one_path [of False healthy ?req fresh] fresh_addUser r0
    by (subst prod.collapse [symmetric], subst eq) (simp del: prod.collapse)
  have 2: "api True healthy ?req fresh = (Inr (JBool True),
        \<lparr>remote = [Insert ''users'' [JObj newcomer] False], local = local fresh\<rparr>)"
    using api_one_path [of True healthy ?req fresh] succeeded_healthy_addUser r0 h
    by (subst prod.collapse [symmetric], subst eq) (auto simp del: prod.collapse)
  have 3: "api True lossy ?req fresh = (Inr (JBool True),
        \<lparr>remote = [Insert ''users'' [JObj newcomer] False],
         local = \<lparr>storage = roomy [(''users'', ''[{\"id\":1714550400000,\"name\":\"Budi\"}]'')],
                   MOCK_DOCTORS = initial_MOCK_DOCTORS\<rparr>\<rparr>)"
    using api_one_path [of True lossy ?req fresh] failed_lossy_addUser fresh_addUser r0 l
    by (subst prod.collapse [symmetric], subst eq) (simp del: prod.collapse)
  from 1 2 3 show ?thesis by simp
qed

text \<open>
  The claim as written fails both ways. A remote that has carried out the insertion and
  lost the answer leaves the row in both stores. A full storage drops the write, and an
  update of an unknown identity writes nothing: the call succeeds and the row is in
  neither store.
\<close>

theorem api_one_store_counterexample:
  "remote (snd (api True lossy (AddUser newcomer 1714550400000) fresh)) \<noteq> remote fresh
   \<and> local (snd (api True lossy (AddUser newcomer 1714550400000) fresh)) \<noteq> local fresh
   \<and> api False offline (AddUser newcomer 1714550400000) crowded = (Inr (JBool True), crowded)
   \<and> api False offline (UpdateRegistration 99 ''Done'' None None None None None None) counter
       = (Inr (JBool True), counter)"
proof -
  have 1: "api True lossy (AddUser newcomer 1714550400000) fresh
     = (Inr (JBool True),
        \<lparr>remote = [Insert ''users'' [JObj newcomer] False],
         local = \<lparr>storage = roomy [(''users'', ''[{\"id\":1714550400000,\"name\":\"Budi\"}]'')],
                   MOCK_DOCTORS = initial_MOCK_DOCTORS\<rparr>\<rparr>)"
    using fresh_addUser
    by (simp add: addUser_def trySupabase_def on_remote_def on_local_def addUser_operation_def
        awaiting_def lossy_def fresh_def)
  have 2: "api False offline (AddUser newcomer 1714550400000) crowded = (Inr (JBool True), crowded)"
    by (simp add: addUser_def trySupabase_def on_local_def addUser_fallback_def crowded_def
        newcomer_def array_push_def as_array_def spread_def store_eval json_text_eval)
  have 3: "api False offline (UpdateRegistration 99 ''Done'' None None None None None None) counter
       = (Inr (JBool True), counter)"
    using desk_registrations
    by (simp add: updateRegistration_def trySupabase_def on_local_def updateRegistration_fallback_def
        Let_def collection_def default_of_def array_findIndex_def as_array_def field_is_def
        member_def field_def get_def counter_def)
  from 1 2 3 show ?thesis by (simp add: fresh_def roomy_def)
qed

section \<open>Registration\<close>

lemma randomNum_range:
  assumes "0 \<le> rnd" "rnd < 1"
  shows "1000 \<le> randomNum rnd \<and> randomNum rnd \<le> 9999"
proof -
  have "(1000::real) \<le> 1000 + rnd * 9000" using assms by simp
  then have lo: "1000 \<le> randomNum rnd" unfolding randomNum_def by (simp add: le_floor_iff)
  have "1000 + rnd * 9000 < (10000::real)" using assms by simp
  then have "randomNum rnd < 10000" unfolding randomNum_def by (simp add: floor_less_iff)
  with lo show ?thesis by simp
qed

lemma dec_nat_four:
  assumes "1000 \<le> n" "n \<le> 9999"
  shows "dec_nat n = [digit_char (n div 1000), digit_char (n div 100 mod 10),
                      digit_char (n div 10 mod 10), digit_char (n mod 10)]"
proof -
  have 1: "dec_nat n = dec_nat (n div 10) @ [digit_char (n mod 10)]"
    using assms by (subst dec_nat.simps) simp
  have 2: "dec_nat (n div 10) = dec_nat (n div 100) @ [digit_char (n div 10 mod 10)]"
    using assms by (subst dec_nat.simps) (simp add: div_mult2_eq [symmetric])
  have 3: "dec_nat (n div 100) = dec_nat (n div 1000) @ [digit_char (n div 100 mod 10)]"
    using assms by (subst dec_nat.simps) (simp add: div_mult2_eq [symmetric])
  have 4: "dec_nat (n div 1000) = [digit_char (n div 1000)]"
    using assms by (subst dec_nat.simps) simp
  show ?thesis by (simp add: 1 2 3 4)
qed

lemma dec_int_inj: "dec_int i = dec_int j \<Longrightarrow> i = j"
proof -
  assume e: "dec_int i = dec_int j"
  have n: "number_end []" by (simp add: number_end_def)
  have "parse_number (dec_int i @ []) = Some (i, [])" "parse_number (dec_int j @ []) = Some (j, [])"
    using parse_number_dec_int [OF n] by blast+
  with e show ?thesis by simp
qed

lemma bookingCode_digits:
  assumes "0 \<le> rnd" "rnd < 1"
  shows "\<exists>a b c e. bookingCode rnd = ''REG-'' @ [a, b, c, e]
           \<and> is_digit a \<and> is_digit b \<and> is_digit c \<and> is_digit e"
proof -
  let ?n = "nat (randomNum rnd)"
  have r: "1000 \<le> ?n" "?n \<le> 9999" using randomNum_range [OF assms] by auto
  have "dec_int (randomNum rnd) = dec_nat ?n"
    using randomNum_range [OF assms] by (simp add: dec_int_def)
  then have "bookingCode rnd = ''REG-'' @ [digit_char (?n div 1000), digit_char (?n div 100 mod 10),
      digit_char (?n div 10 mod 10), digit_char (?n mod 10)]"
    using dec_nat_four [OF r] by (simp add: bookingCode_def)
  moreover have "?n div 1000 < 10" using r by simp
  ultimately show ?thesis
    by (intro exI [of _ "digit_char (?n div 1000)"] exI [of _ "digit_char (?n div 100 mod 10)"]
        exI [of _ "digit_char (?n div 10 mod 10)"] exI [of _ "digit_char (?n mod 10)"])
      (simp add: is_digit_digit_char)
qed

lemma newData_fields:
  "get (newData d rnd stamp) ''bookingCode'' = JStr (bookingCode rnd)"
  "get (newData d rnd stamp) ''booking_code'' = JStr (bookingCode rnd)"
  "get (newData d rnd stamp) ''payment_status''
     = JStr (if get d ''payment'' = JStr ''bpjs'' then ''Paid'' else ''Unpaid'')"
  "get (newData d rnd stamp) ''payment_detail''
     = (if get d ''payment'' = JStr ''bpjs'' then JStr ''BPJS Kesehatan''
        else if truthy (get d ''payment_detail'') then get d ''payment_detail''
        else JStr ''Tunai'')"
  "get (newData d rnd stamp) ''cost'' = JNum 0"
  "get (newData d rnd stamp) ''status'' = JStr ''Pending''"
  "get (newData d rnd stamp) ''created_at'' = JStr stamp"
  by (simp_all add: newData_def get_spread_distinct get_Cons)

lemma distinct_newData: "distinct (map fst (newData d rnd stamp))"
  unfolding newData_def by (intro distinct_spread) simp

text \<open>
  C2. With a random number from 0 up to 1, the booking code is \<^verbatim>\<open>REG-\<close> and four decimal
  digits, the number being between 1000 and 9999. The new record carries the code under
  both names, \<^verbatim>\<open>payment_status\<close> \<^verbatim>\<open>Paid\<close> exactly when \<^verbatim>\<open>payment\<close> is \<^verbatim>\<open>bpjs\<close>,
  \<^verbatim>\<open>payment_detail\<close> \<^verbatim>\<open>BPJS Kesehatan\<close> in that case and else the given detail if it is
  truthy and \<^verbatim>\<open>Tunai\<close> if not, cost 0 and status \<^verbatim>\<open>Pending\<close>, whatever the form held under
  these names. Two codes are equal exactly when the two random suffixes are. With the
  flag off and an array stored, the call returns the record it saved, which has the same
  fields and an identity.
\<close>

theorem registerPatient_derivation:
  assumes "0 \<le> rnd" "rnd < 1"
  shows "(\<exists>a b c e. bookingCode rnd = ''REG-'' @ [a, b, c, e]
            \<and> is_digit a \<and> is_digit b \<and> is_digit c \<and> is_digit e)
    \<and> 1000 \<le> randomNum rnd \<and> randomNum rnd \<le> 9999
    \<and> get (newData d rnd stamp) ''bookingCode'' = JStr (bookingCode rnd)
    \<and> get (newData d rnd stamp) ''booking_code'' = JStr (bookingCode rnd)
    \<and> get (newData d rnd stamp) ''payment_status''
         = JStr (if get d ''payment'' = JStr ''bpjs'' then ''Paid'' else ''Unpaid'')
    \<and> get (newData d rnd stamp) ''payment_detail''
         = (if get d ''payment'' = JStr ''bpjs'' then JStr ''BPJS Kesehatan''
            else if truthy (get d ''payment_detail'') then get d ''payment_detail''
            else JStr ''Tunai'')
    \<and> get (newData d rnd stamp) ''cost'' = JNum 0
    \<and> get (newData d rnd stamp) ''status'' = JStr ''Pending''
    \<and> (bookingCode rnd = bookingCode rnd' \<longleftrightarrow> randomNum rnd = randomNum rnd')
    \<and> (collection ''registrations'' (local w) = JArr regs \<longrightarrow>
         fst (registerPatient False sb d rnd stamp now w)
           = Inr (JObj [(''message'', JStr ''success''),
                        (''data'', JObj (spread [(''id'', JNum now)] (newData d rnd stamp)))])
         \<and> (k \<noteq> ''id'' \<longrightarrow> get (spread [(''id'', JNum now)] (newData d rnd stamp)) k
                = get (newData d rnd stamp) k))"
proof -
  have inj: "bookingCode rnd = bookingCode rnd' \<longleftrightarrow> randomNum rnd = randomNum rnd'"
    by (auto simp: bookingCode_def dest: dec_int_inj)
  have fb: "fst (registerPatient False sb d rnd stamp now w)
      = Inr (JObj [(''message'', JStr ''success''),
                   (''data'', JObj (spread [(''id'', JNum now)] (newData d rnd stamp)))])"
    if "collection ''registrations'' (local w) = JArr regs"
    using that
    by (simp add: registerPatient_def trySupabase_def on_local_def registerPatient_fallback_def
        collection_def default_of_def array_push_def as_array_def Let_def)
  have saved: "get (spread [(''id'', JNum now)] (newData d rnd stamp)) k = get (newData d rnd stamp) k"
    if "k \<noteq> ''id''"
    using that by (simp add: get_spread_distinct [OF distinct_newData] get_Cons get_Nil get_absent)
  from bookingCode_digits [OF assms] randomNum_range [OF assms] inj fb saved show ?thesis
    by (simp add: newData_fields)
qed

text \<open>C2 for one form with and one without \<^verbatim>\<open>payment: 'bpjs'\<close>, at the random number 1/2.\<close>

theorem registerPatient_derivation_witness:
  "bookingCode (1 / 2) = ''REG-5500''
   \<and> randomNum (1 / 2) = 5500
   \<and> get (newData patient (1 / 2) ''2024-05-01T08:00:00.000Z'') ''booking_code'' = JStr ''REG-5500''
   \<and> get (newData patient (1 / 2) ''2024-05-01T08:00:00.000Z'') ''payment_status'' = JStr ''Paid''
   \<and> get (newData patient (1 / 2) ''2024-05-01T08:00:00.000Z'') ''payment_detail''
       = JStr ''BPJS Kesehatan''
   \<and> get (newData [(''nik'', JStr ''3502010101900003'')] (1 / 2) ''2024-05-01T08:00:00.000Z'')
        ''payment_status'' = JStr ''Unpaid''
   \<and> get (newData [(''nik'', JStr ''3502010101900003'')] (1 / 2) ''2024-05-01T08:00:00.000Z'')
        ''payment_detail'' = JStr ''Tunai''
   \<and> get (newData patient (1 / 2) ''2024-05-01T08:00:00.000Z'') ''cost'' = JNum 0
   \<and> get (newData patient (1 / 2) ''2024-05-01T08:00:00.000Z'') ''status'' = JStr ''Pending''
   \<and> bookingCode (1 / 2) \<noteq> bookingCode (3 / 4)
   \<and> fst (registerPatient False offline patient (1 / 2) ''2024-05-01T08:00:00.000Z'' 1714550400000
          counter)
       = Inr (JObj [(''message'', JStr ''success''),
            (''data'', JObj (spread [(''id'', JNum 1714550400000)]
               (newData patient (1 / 2) ''2024-05-01T08:00:00.000Z'')))])"
proof -
  have h: "(0::real) \<le> 1 / 2" "(1::real) / 2 < 1" by simp_all
  have n: "randomNum (1 / 2) = 5500" "randomNum (3 / 4) = 7750" by (simp_all add: randomNum_def)
  have b: "bookingCode (1 / 2) = ''REG-5500''"
    by (simp add: bookingCode_def n dec_int_def dec_nat.simps digit_char_def char_of_eq_iff)
  have c: "collection ''registrations'' (local counter) =
     JArr [JObj [(''id'', JNum 11), (''nik'', JStr ''3502010101900001''), (''status'', JStr ''Pending''),
                 (''cost'', JNum 0)],
           JObj [(''id'', JNum 12), (''nik'', JStr ''3502010101900002'')]]"
    using desk_registrations by (simp add: counter_def)
  note t = registerPatient_derivation [OF h, where rnd' = "3 / 4" and stamp = "''2024-05-01T08:00:00.000Z''"
      and now = 1714550400000 and w = counter and sb = offline]
  from t [of patient] t [of "[(''nik'', JStr ''3502010101900003'')]"] c show ?thesis
    by (simp add: n b patient_def get_def)
qed

section \<open>Updating a registration\<close>

lemma keys_given_text: "fst ` set (given_text k a) = (if \<exists>s. a = Some s \<and> s \<noteq> [] then {k} else {})"
  by (auto simp: given_text_def split: option.splits)

lemma keys_given: "fst ` set (given k a) = (if a = None then {} else {k})"
  by (auto simp: given_def split: option.splits)

lemma assign_given_text:
  "k \<notin> fst ` set u \<Longrightarrow>
   (case a of Some s \<Rightarrow> if s \<noteq> [] then assign k (JStr s) u else u | None \<Rightarrow> u) = u @ given_text k a"
  by (simp add: given_text_def assign_fresh split: option.splits)

lemma assign_given_num:
  "k \<notin> fst ` set u \<Longrightarrow>
   (case a of Some c \<Rightarrow> assign k (JNum c) u | None \<Rightarrow> u) = u @ given k (map_option JNum a)"
  by (simp add: given_def assign_fresh split: option.splits)

lemma assign_given_str:
  "k \<notin> fst ` set u \<Longrightarrow>
   (case a of Some s \<Rightarrow> assign k (JStr s) u | None \<Rightarrow> u) = u @ given k (map_option JStr a)"
  by (simp add: given_def assign_fresh split: option.splits)

lemma updates_eq:
  "updates status ps cost pd pp ct fn =
     [(''status'', JStr status)] @ given_text ''payment_status'' ps @ given ''cost'' (map_option JNum cost)
       @ given_text ''payment_detail'' pd @ given_text ''payment_proof'' pp
       @ given ''class_type'' (map_option JStr ct) @ given ''facility_notes'' (map_option JStr fn)"
proof -
  let ?u0 = "[(''status'', JStr status)]"
  let ?u1 = "?u0 @ given_text ''payment_status'' ps"
  let ?u2 = "?u1 @ given ''cost'' (map_option JNum cost)"
  let ?u3 = "?u2 @ given_text ''payment_detail'' pd"
  let ?u4 = "?u3 @ given_text ''payment_proof'' pp"
  let ?u5 = "?u4 @ given ''class_type'' (map_option JStr ct)"
  have 1: "(case ps of Some s \<Rightarrow> if s \<noteq> [] then assign ''payment_status'' (JStr s) ?u0 else ?u0
            | None \<Rightarrow> ?u0) = ?u1"
    by (intro assign_given_text) simp
  have 2: "(case cost of Some c \<Rightarrow> assign ''cost'' (JNum c) ?u1 | None \<Rightarrow> ?u1) = ?u2"
    by (intro assign_given_num) (simp add: image_Un keys_given_text)
  have 3: "(case pd of Some s \<Rightarrow> if s \<noteq> [] then assign ''payment_detail'' (JStr s) ?u2 else ?u2
            | None \<Rightarrow> ?u2) = ?u3"
    by (intro assign_given_text) (simp add: image_Un keys_given_text keys_given)
  have 4: "(case pp of Some s \<Rightarrow> if s \<noteq> [] then assign ''payment_proof'' (JStr s) ?u3 else ?u3
            | None \<Rightarrow> ?u3) = ?u4"
    by (intro assign_given_text) (simp add: image_Un keys_given_text keys_given)
  have 5: "(case ct of Some s \<Rightarrow> assign ''class_type'' (JStr s) ?u4 | None \<Rightarrow> ?u4) = ?u5"
    by (intro assign_given_str) (simp add: image_Un keys_given_text keys_given)
  have 6: "(case fn of Some s \<Rightarrow> assign ''facility_notes'' (JStr s) ?u5 | None \<Rightarrow> ?u5)
      = ?u5 @ given ''facility_notes'' (map_option JStr fn)"
    by (intro assign_given_str) (simp add: image_Un keys_given_text keys_given)
  show ?thesis
    unfolding updates_def Let_def 1 2 3 4 5 6 by simp
qed

lemma keys_updates:
  "fst ` set (updates status ps cost pd pp ct fn) =
     {''status''} \<union> (if \<exists>s. ps = Some s \<and> s \<noteq> [] then {''payment_status''} else {})
      \<union> (if cost = None then {} else {''cost''})
      \<union> (if \<exists>s. pd = Some s \<and> s \<noteq> [] then {''payment_detail''} else {})
      \<union> (if \<exists>s. pp = Some s \<and> s \<noteq> [] then {''payment_proof''} else {})
      \<union> (if ct = None then {} else {''class_type''})
      \<union> (if fn = None then {} else {''facility_notes''})"
  unfolding updates_eq
  by (simp only: list.set set_append image_insert image_Un image_empty keys_given_text keys_given
      fst_conv option.map_disc_iff Un_assoc insert_is_Un [of _ "{}", symmetric] Un_empty_right)

lemma distinct_given_text: "distinct (map fst (given_text k a))"
  by (simp add: given_text_def split: option.splits)

lemma distinct_given: "distinct (map fst (given k a))"
  by (simp add: given_def split: option.splits)

lemma keys_given_text': "set (map fst (given_text k a)) = (if \<exists>s. a = Some s \<and> s \<noteq> [] then {k} else {})"
  using keys_given_text [of k a] by simp

lemma keys_given': "set (map fst (given k a)) = (if a = None then {} else {k})"
  using keys_given [of k a] by simp

lemma distinct_updates: "distinct (map fst (updates status ps cost pd pp ct fn))"
  unfolding updates_eq
  by (simp add: distinct_given_text distinct_given keys_given_text keys_given)

lemma get_append: "get (a @ b) k = (if k \<in> fst ` set a then get a k else get b k)"
  by (induction a) (auto simp: get_def)

lemma get_given_text: "s \<noteq> [] \<Longrightarrow> get (given_text k (Some s)) k = JStr s"
  by (simp add: given_text_def get_def)

lemma get_given: "get (given k (Some v)) k = v"
  by (simp add: given_def get_def)

lemma get_updates:
  "get (updates status ps cost pd pp ct fn) ''status'' = JStr status"
  "cost = Some c \<Longrightarrow> get (updates status ps cost pd pp ct fn) ''cost'' = JNum c"
  "ct = Some s \<Longrightarrow> get (updates status ps cost pd pp ct fn) ''class_type'' = JStr s"
  "fn = Some s \<Longrightarrow> get (updates status ps cost pd pp ct fn) ''facility_notes'' = JStr s"
  unfolding updates_eq
  by (simp_all add: get_append get_given get_Cons keys_given_text keys_given)

text \<open>
  C9. Whatever record \<open>t\<close> the update object is spread onto: the status is always written;
  a \<^verbatim>\<open>payment_status\<close> or \<^verbatim>\<open>payment_detail\<close> that is the empty string or left out is not
  part of the update and the value of \<open>t\<close> stays; a cost that is given is written, 0
  included, and so are a \<^verbatim>\<open>class_type\<close> and \<^verbatim>\<open>facility_notes\<close> that are given, the empty
  string included.
\<close>

theorem updates_not_uniform:
  "get (spread t (updates status ps cost pd pp ct fn)) ''status'' = JStr status
   \<and> (ps = Some [] \<or> ps = None \<longrightarrow>
        ''payment_status'' \<notin> fst ` set (updates status ps cost pd pp ct fn)
        \<and> get (spread t (updates status ps cost pd pp ct fn)) ''payment_status''
            = get t ''payment_status'')
   \<and> (pd = Some [] \<or> pd = None \<longrightarrow>
        ''payment_detail'' \<notin> fst ` set (updates status ps cost pd pp ct fn)
        \<and> get (spread t (updates status ps cost pd pp ct fn)) ''payment_detail''
            = get t ''payment_detail'')
   \<and> (cost = Some c \<longrightarrow> get (spread t (updates status ps cost pd pp ct fn)) ''cost'' = JNum c)
   \<and> (ct = Some s \<longrightarrow> get (spread t (updates status ps cost pd pp ct fn)) ''class_type'' = JStr s)
   \<and> (fn = Some s \<longrightarrow>
        get (spread t (updates status ps cost pd pp ct fn)) ''facility_notes'' = JStr s)"
  by (auto simp: get_spread_distinct [OF distinct_updates] keys_updates get_updates)

text \<open>
  C9 for a call with empty strings and cost 0: the update object has the status, the
  cost, the class and the notes, and not the two payment fields.
\<close>

theorem updates_not_uniform_witness:
  "get (spread [(''status'', JStr ''Pending''), (''payment_status'', JStr ''Unpaid''), (''cost'', JNum 75000),
                (''class_type'', JStr ''VIP'')]
         (updates ''Done'' (Some []) (Some 0) (Some []) None (Some []) (Some []))) ''status'' = JStr ''Done''
   \<and> get (spread [(''status'', JStr ''Pending''), (''payment_status'', JStr ''Unpaid''), (''cost'', JNum 75000),
                (''class_type'', JStr ''VIP'')]
         (updates ''Done'' (Some []) (Some 0) (Some []) None (Some []) (Some []))) ''payment_status''
       = JStr ''Unpaid''
   \<and> get (spread [(''status'', JStr ''Pending''), (''payment_status'', JStr ''Unpaid''), (''cost'', JNum 75000),
                (''class_type'', JStr ''VIP'')]
         (updates ''Done'' (Some []) (Some 0) (Some []) None (Some []) (Some []))) ''cost'' = JNum 0
   \<and> get (spread [(''status'', JStr ''Pending''), (''payment_status'', JStr ''Unpaid''), (''cost'', JNum 75000),
                (''class_type'', JStr ''VIP'')]
         (updates ''Done'' (Some []) (Some 0) (Some []) None (Some []) (Some []))) ''class_type'' = JStr []
   \<and> updates ''Done'' (Some []) (Some 0) (Some []) None (Some []) (Some [])
       = [(''status'', JStr ''Done''), (''cost'', JNum 0), (''class_type'', JStr []),
          (''facility_notes'', JStr [])]"
proof -
  let ?t = "[(''status'', JStr ''Pending''), (''payment_status'', JStr ''Unpaid''), (''cost'', JNum 75000),
             (''class_type'', JStr ''VIP'')]"
  have u: "updates ''Done'' (Some []) (Some 0) (Some []) None (Some []) (Some [])
       = [(''status'', JStr ''Done''), (''cost'', JNum 0), (''class_type'', JStr []),
          (''facility_notes'', JStr [])]"
    by (simp add: updates_def)
  from updates_not_uniform [of ?t "''Done''" "Some []" "Some 0" "Some []" None "Some []" "Some []" 0 "[]"]
  show ?thesis
    by (simp add: u get_def)
qed













lemma collection_is_json: "is_json (JArr (MOCK_DOCTORS st)) \<Longrightarrow> is_json (collection key st)"
  by (simp add: collection_def getMockData_is_json is_json_default_of)




end
